theory Spec2Isabelle
  imports Complex_Main "HOL-Library.AList" "HOL-Library.Sublist"
begin

section \<open>jointstate2tf: a shallow embedding of \<open>src/index.ts\<close>\<close>

text \<open>
  Conventions of the embedding.

  \<^item> A TypeScript \<open>number\<close> is read as a \<^typ>\<open>real\<close>: arithmetic is exact, and the
    IEEE values NaN and the infinities are outside the number type. Where the source
    can meet NaN or \<open>undefined\<close> (the result of \<open>Number\<close> on a token, a read past the end
    of an array) the value is an \<open>option\<close>, with \<open>None\<close> for NaN or \<open>undefined\<close>.
  \<^item> An object type is a record. The field names carry a short prefix, since a
    record field is a constant of the theory: \<open>vx\<close> is the field \<open>x\<close> of a vector,
    \<open>qx\<close> the field \<open>x\<close> of a quaternion, \<open>tr_r\<close> the field \<open>r\<close> of a \<open>TransformTR\<close>,
    \<open>j_q\<close> the field \<open>q\<close> of a \<open>UrdfJoint\<close>, and so on.
  \<^item> The joint objects are shared between the maps of the model and are mutated in
    place, so the engine holds an explicit store of joints (a list addressed by
    index) and its maps hold addresses.
  \<^item> A JavaScript \<open>Map\<close> is an association list in insertion order with distinct
    keys: \<open>Map.set\<close> is \<^const>\<open>AList.update\<close> (overwrite in place, or append),
    \<open>Map.get\<close> is \<^const>\<open>map_of\<close>, \<open>Map.forEach\<close> is a fold from the left.
\<close>

subsection \<open>Public types\<close>

record Time =
  sec :: real
  nanosec :: real

record Header =
  stamp :: Time
  frame_id :: string

record JointState =
  js_header :: Header
  js_name :: "string list"
  js_position :: "real list"

text \<open>\<open>Vector3\<close> and \<open>MathVec3\<close> (and \<open>Quaternion\<close> and \<open>MathQuat\<close>) are the same
  structural type in the source.\<close>

record MathVec3 =
  vx :: real
  vy :: real
  vz :: real

record MathQuat =
  qx :: real
  qy :: real
  qz :: real
  qw :: real

record Transform =
  translation :: MathVec3
  rotation :: MathQuat

record TransformStamped =
  header :: Header
  child_frame_id :: string
  transform :: Transform

record TFMessage =
  transforms :: "TransformStamped list"

record ComputeOptions =
  publishTimeNs :: "real option"

subsection \<open>Minimal math\<close>

definition vec3 :: "real \<Rightarrow> real \<Rightarrow> real \<Rightarrow> MathVec3" where
  "vec3 a b c = \<lparr>vx = a, vy = b, vz = c\<rparr>"

definition quatIdentity :: MathQuat where
  "quatIdentity = \<lparr>qx = 0, qy = 0, qz = 0, qw = 1\<rparr>"

definition vec3Add :: "MathVec3 \<Rightarrow> MathVec3 \<Rightarrow> MathVec3" where
  "vec3Add a b = \<lparr>vx = vx a + vx b, vy = vy a + vy b, vz = vz a + vz b\<rparr>"

definition vec3Scale :: "MathVec3 \<Rightarrow> real \<Rightarrow> MathVec3" where
  "vec3Scale a s = \<lparr>vx = vx a * s, vy = vy a * s, vz = vz a * s\<rparr>"

text \<open>\<open>Math.hypot(x, y, z)\<close> is the Euclidean norm.\<close>

definition vec3Length :: "MathVec3 \<Rightarrow> real" where
  "vec3Length a = sqrt (vx a * vx a + vy a * vy a + vz a * vz a)"

text \<open>\<open>vec3Length(a) || 1\<close>: a length of zero is falsy and is replaced by 1.\<close>

definition vec3Normalize :: "MathVec3 \<Rightarrow> MathVec3" where
  "vec3Normalize a =
     (let len = (if vec3Length a = 0 then 1 else vec3Length a)
      in \<lparr>vx = vx a / len, vy = vy a / len, vz = vz a / len\<rparr>)"

definition quatMultiply :: "MathQuat \<Rightarrow> MathQuat \<Rightarrow> MathQuat" where
  "quatMultiply a b =
     \<lparr>qx = qw a * qx b + qx a * qw b + qy a * qz b - qz a * qy b,
      qy = qw a * qy b - qx a * qz b + qy a * qw b + qz a * qx b,
      qz = qw a * qz b + qx a * qy b - qy a * qx b + qz a * qw b,
      qw = qw a * qw b - qx a * qx b - qy a * qy b - qz a * qz b\<rparr>"

definition quatFromAxisAngle :: "MathVec3 \<Rightarrow> real \<Rightarrow> MathQuat" where
  "quatFromAxisAngle ax angle =
     (let n = vec3Normalize ax;
          h = angle * 0.5;
          s = sin h
      in \<lparr>qx = vx n * s, qy = vy n * s, qz = vz n * s, qw = cos h\<rparr>)"

definition quatFromRPY :: "real \<Rightarrow> real \<Rightarrow> real \<Rightarrow> MathQuat" where
  "quatFromRPY roll pitch yaw =
     (let cx = cos (roll * 0.5); sx = sin (roll * 0.5);
          cy = cos (pitch * 0.5); sy = sin (pitch * 0.5);
          cz = cos (yaw * 0.5); sz = sin (yaw * 0.5)
      in \<lparr>qx = cz * cy * sx - sz * sy * cx,
          qy = cz * sy * cx + sz * cy * sx,
          qz = sz * cy * cx - cz * sy * sx,
          qw = cz * cy * cx + sz * sy * sx\<rparr>)"

definition vec3RotateByQuat :: "MathVec3 \<Rightarrow> MathQuat \<Rightarrow> MathVec3" where
  "vec3RotateByQuat v q =
     (let uvx = qy q * vz v - qz q * vy v;
          uvy = qz q * vx v - qx q * vz v;
          uvz = qx q * vy v - qy q * vx v;
          uuvx = qy q * uvz - qz q * uvy;
          uuvy = qz q * uvx - qx q * uvz;
          uuvz = qx q * uvy - qy q * uvx
      in \<lparr>vx = vx v + 2 * (qw q * uvx + uuvx),
          vy = vy v + 2 * (qw q * uvy + uuvy),
          vz = vz v + 2 * (qw q * uvz + uuvz)\<rparr>)"

record TransformTR =
  tr_r :: MathQuat
  tr_t :: MathVec3

definition composeTR :: "TransformTR \<Rightarrow> TransformTR \<Rightarrow> TransformTR" where
  "composeTR a b =
     \<lparr>tr_r = quatMultiply (tr_r a) (tr_r b),
      tr_t = vec3Add (tr_t a) (vec3RotateByQuat (tr_t b) (tr_r a))\<rparr>"

subsection \<open>The joint model\<close>

datatype JointType = Revolute | Continuous | Prismatic | Fixed

record UrdfJoint =
  j_name :: string
  j_type :: JointType
  j_parent :: string
  j_child :: string
  j_origin :: TransformTR
  j_axis :: MathVec3
  j_q :: real

text \<open>
  \<open>UrdfModel\<close>, which is the whole state of a \<open>JointStateToTF\<close> instance. \<open>joints\<close> is
  the store: address \<open>i\<close> is the \<open>i\<close>-th joint object that \<open>parseUrdf\<close> created.
\<close>

record UrdfModel =
  joints :: "UrdfJoint list"
  jointsByName :: "(string \<times> nat) list"
  jointsByParentLink :: "(string \<times> nat list) list"
  linkParent :: "(string \<times> string) list"

definition jointMotionTR :: "UrdfJoint \<Rightarrow> TransformTR" where
  "jointMotionTR j =
     (case j_type j of
        Revolute \<Rightarrow> \<lparr>tr_r = quatFromAxisAngle (j_axis j) (j_q j), tr_t = vec3 0 0 0\<rparr>
      | Continuous \<Rightarrow> \<lparr>tr_r = quatFromAxisAngle (j_axis j) (j_q j), tr_t = vec3 0 0 0\<rparr>
      | Prismatic \<Rightarrow> \<lparr>tr_r = quatIdentity, tr_t = vec3Scale (j_axis j) (j_q j)\<rparr>
      | Fixed \<Rightarrow> \<lparr>tr_r = quatIdentity, tr_t = vec3 0 0 0\<rparr>)"

subsection \<open>Regular expressions of the parser\<close>

text \<open>
  A string is a list of characters, read as code units below 256. \<open>\w\<close> is
  \<open>[A-Za-z0-9_]\<close>; \<open>\s\<close> (and the characters that \<open>trim\<close> strips) are, below 256,
  tab, line feed, vertical tab, form feed, carriage return, space and no-break space.
\<close>

definition isWordChar :: "char \<Rightarrow> bool" where
  "isWordChar c =
     (let n = (of_char c :: nat)
      in (97 \<le> n \<and> n \<le> 122) \<or> (65 \<le> n \<and> n \<le> 90) \<or> (48 \<le> n \<and> n \<le> 57) \<or> n = 95)"

definition isSpaceChar :: "char \<Rightarrow> bool" where
  "isSpaceChar c = (let n = (of_char c :: nat) in (9 \<le> n \<and> n \<le> 13) \<or> n = 32 \<or> n = 160)"

definition trim :: "string \<Rightarrow> string" where
  "trim s = rev (dropWhile isSpaceChar (rev (dropWhile isSpaceChar s)))"

text \<open>\<open>\b\<close> between the last character of \<open>before\<close> and the first of \<open>rest\<close>: exactly
  one of the two is a word character (a missing character is not one).\<close>

definition wordBoundary :: "string \<Rightarrow> string \<Rightarrow> bool" where
  "wordBoundary before rest =
     ((before \<noteq> [] \<and> isWordChar (last before)) \<noteq> (rest \<noteq> [] \<and> isWordChar (hd rest)))"

text \<open>\<open>RegExp.exec\<close> without the \<open>g\<close> flag: the match at the leftmost position where
  the pattern matches. \<open>pat\<close> is the pattern anchored at the start of its argument;
  every pattern of the source starts with a literal character, so a match at
  a position depends on the text from that position only.\<close>

fun regexExec :: "(string \<Rightarrow> 'a option) \<Rightarrow> string \<Rightarrow> 'a option" where
  "regexExec pat [] = pat []"
| "regexExec pat (c # cs) =
     (case pat (c # cs) of Some r \<Rightarrow> Some r | None \<Rightarrow> regexExec pat cs)"

text \<open>The first index at which \<open>needle\<close> occurs.\<close>

fun indexOf :: "string \<Rightarrow> string \<Rightarrow> nat option" where
  "indexOf needle [] = (if needle = [] then Some 0 else None)"
| "indexOf needle (c # cs) =
     (if prefix needle (c # cs) then Some 0 else map_option Suc (indexOf needle cs))"

text \<open>\<open>/<joint\b[\s\S]*?<\/joint>/\<close> anchored: the lazy star stops at the first
  \<open></joint>\<close> after the boundary. The result is the matched text.\<close>

definition matchJointBlockAt :: "string \<Rightarrow> string option" where
  "matchJointBlockAt s =
     (if prefix ''<joint'' s \<and> wordBoundary ''<joint'' (drop 6 s)
      then (case indexOf ''</joint>'' (drop 6 s) of
              None \<Rightarrow> None
            | Some k \<Rightarrow> Some (take (6 + k + 8) s))
      else None)"

text \<open>\<open>extractJointBlocks\<close>: the loop over \<open>re.exec\<close> with the \<open>g\<close> flag takes the
  leftmost match, then goes on after its end.\<close>

function extractJointBlocks :: "string \<Rightarrow> string list" where
  "extractJointBlocks s =
     (case matchJointBlockAt s of
        Some b \<Rightarrow> b # extractJointBlocks (drop (length b) s)
      | None \<Rightarrow> (case s of [] \<Rightarrow> [] | c # cs \<Rightarrow> extractJointBlocks cs))"
  by pat_completeness auto
termination
proof (relation "measure length")
  fix s b
  assume m: "matchJointBlockAt s = Some b"
  then have "prefix ''<joint'' s"
    by (simp add: matchJointBlockAt_def split: if_splits)
  then have len: "6 \<le> length s"
    using prefix_length_le by fastforce
  with m have "6 \<le> length b"
    by (auto simp: matchJointBlockAt_def split: if_splits option.splits)
  with len show "(drop (length b) s, s) \<in> measure length"
    by simp
qed simp_all

declare extractJointBlocks.simps [simp del]

text \<open>\<open>/<tag\b([^>]*)>/\<close> anchored, for a tag made of letters: the greedy class
  runs up to the first \<open>>\<close>, which must exist. The result is the capture.\<close>

definition matchOpenTagAt :: "string \<Rightarrow> string \<Rightarrow> string option" where
  "matchOpenTagAt tag s =
     (if prefix (''<'' @ tag) s
      then (let rest = drop (length (''<'' @ tag)) s;
                body = takeWhile (\<lambda>c. c \<noteq> CHR ''>'') rest
            in if wordBoundary (''<'' @ tag) rest \<and> length body < length rest
               then Some body else None)
      else None)"

text \<open>\<open>/<tag\b([^>]*)\/>/\<close> anchored: the class cannot cross a \<open>>\<close>, so the \<open>>\<close> of
  \<open>/>\<close> is the first one after the tag name and the slash is the character just
  before it. The result is the capture, without the slash.\<close>

definition matchSelfClosingAt :: "string \<Rightarrow> string \<Rightarrow> string option" where
  "matchSelfClosingAt tag s =
     (if prefix (''<'' @ tag) s
      then (let rest = drop (length (''<'' @ tag)) s;
                body = takeWhile (\<lambda>c. c \<noteq> CHR ''>'') rest
            in if wordBoundary (''<'' @ tag) rest \<and> length body < length rest
                  \<and> body \<noteq> [] \<and> last body = CHR ''/''
               then Some (butlast body) else None)
      else None)"

text \<open>\<open>/(\w+)\s*=\s*"([^"]*)"/\<close> anchored. Each greedy run must be maximal, since
  the character required after it is outside its class. The result is the pair of
  captures and the text after the match.\<close>

definition matchAttrAt :: "string \<Rightarrow> ((string \<times> string) \<times> string) option" where
  "matchAttrAt s =
     (let key = takeWhile isWordChar s;
          r1 = dropWhile isSpaceChar (dropWhile isWordChar s)
      in if key = [] then None
         else (case r1 of
                 [] \<Rightarrow> None
               | c1 # r1' \<Rightarrow>
                   if c1 \<noteq> CHR ''='' then None
                   else (case dropWhile isSpaceChar r1' of
                           [] \<Rightarrow> None
                         | c2 # r2 \<Rightarrow>
                             if c2 \<noteq> CHR 0x22 then None
                             else (case dropWhile (\<lambda>c. c \<noteq> CHR 0x22) r2 of
                                     [] \<Rightarrow> None
                                   | c3 # rest \<Rightarrow>
                                       Some ((key, takeWhile (\<lambda>c. c \<noteq> CHR 0x22) r2), rest)))))"

text \<open>The loop of \<open>parseAttrs\<close> over \<open>re.exec\<close> with the \<open>g\<close> flag: all matches, left
  to right.\<close>

function attrMatches :: "string \<Rightarrow> (string \<times> string) list" where
  "attrMatches s =
     (case matchAttrAt s of
        Some (kv, rest) \<Rightarrow> kv # attrMatches rest
      | None \<Rightarrow> (case s of [] \<Rightarrow> [] | c # cs \<Rightarrow> attrMatches cs))"
  by pat_completeness auto
termination
proof (relation "measure length")
  fix s x kv rest
  assume "matchAttrAt s = Some x" and "(kv, rest) = x"
  then have m: "matchAttrAt s = Some (kv, rest)"
    by simp
  then obtain c1 r1' where r1: "dropWhile isSpaceChar (dropWhile isWordChar s) = c1 # r1'"
    by (auto simp: matchAttrAt_def Let_def split: if_splits list.splits)
  with m obtain c2 r2 where r2: "dropWhile isSpaceChar r1' = c2 # r2"
    by (auto simp: matchAttrAt_def Let_def split: if_splits list.splits)
  with m r1 obtain c3 where r3: "dropWhile (\<lambda>c. c \<noteq> CHR 0x22) r2 = c3 # rest"
    by (auto simp: matchAttrAt_def Let_def split: if_splits list.splits)
  have "length rest < length r2"
    using length_dropWhile_le [of "\<lambda>c. c \<noteq> CHR 0x22" r2] r3 by simp
  also have "length r2 < length r1'"
    using length_dropWhile_le [of isSpaceChar r1'] r2 by simp
  also have "length r1' < length (dropWhile isWordChar s)"
    using length_dropWhile_le [of isSpaceChar "dropWhile isWordChar s"] r1 by simp
  also have "\<dots> \<le> length s"
    by (rule length_dropWhile_le)
  finally show "(rest, s) \<in> measure length"
    by simp
qed simp_all

declare attrMatches.simps [simp del]

text \<open>\<open>parseAttrs\<close>: \<open>out[m[1]] = m[2]\<close> for every match, so a later attribute of the
  same name overwrites an earlier one. The record is read only at the keys
  \<open>name\<close>, \<open>type\<close>, \<open>link\<close>, \<open>xyz\<close> and \<open>rpy\<close>, none of which \<open>Object.prototype\<close> has.\<close>

definition parseAttrs :: "string \<Rightarrow> (string \<rightharpoonup> string)" where
  "parseAttrs s = fold (\<lambda>(k, v) out. out(k \<mapsto> v)) (attrMatches s) Map.empty"

definition parseSingleTagAttr :: "string \<Rightarrow> string \<Rightarrow> string \<Rightarrow> string option" where
  "parseSingleTagAttr block tag attr =
     (case regexExec (matchSelfClosingAt tag) block of
        None \<Rightarrow> None
      | Some m1 \<Rightarrow>
          (case parseAttrs m1 attr of
             None \<Rightarrow> None
           | Some v \<Rightarrow> Some (trim v)))"

definition parseFirstSelfOrOpenTag :: "string \<Rightarrow> string \<Rightarrow> (string \<rightharpoonup> string) option" where
  "parseFirstSelfOrOpenTag block tag =
     (case regexExec (matchSelfClosingAt tag) block of
        Some m1 \<Rightarrow> Some (parseAttrs m1)
      | None \<Rightarrow>
          (case regexExec (matchOpenTagAt tag) block of
             Some m1 \<Rightarrow> Some (parseAttrs m1)
           | None \<Rightarrow> None))"

text \<open>\<open>s.split(/\s+/)\<close>: the separators are the maximal runs of white space, and a
  run at the start or at the end of \<open>s\<close> leaves an empty token there.\<close>

function splitWs :: "string \<Rightarrow> string list" where
  "splitWs s =
     (let tok = takeWhile (\<lambda>c. \<not> isSpaceChar c) s;
          rest = dropWhile (\<lambda>c. \<not> isSpaceChar c) s
      in if rest = [] then [tok] else tok # splitWs (dropWhile isSpaceChar rest))"
  by pat_completeness auto
termination
proof (relation "measure length")
  fix s tok rest
  assume rest: "rest = dropWhile (\<lambda>c. \<not> isSpaceChar c) s" and ne: "rest \<noteq> []"
  then have "isSpaceChar (hd rest)"
    using hd_dropWhile [of "\<lambda>c. \<not> isSpaceChar c" s] by simp
  with ne have "length (dropWhile isSpaceChar rest) < length rest"
    using length_dropWhile_le [of isSpaceChar "tl rest"] by (cases rest) auto
  also have "\<dots> \<le> length s"
    unfolding rest by (rule length_dropWhile_le)
  finally show "(dropWhile isSpaceChar rest, s) \<in> measure length"
    by simp
qed simp_all

declare splitWs.simps [simp del]

subsection \<open>The parser\<close>

text \<open>
  \<open>Number\<close> is the conversion of a token to a number, a parameter of the parser:
  \<open>None\<close> is NaN. \<open>numAt Number toks i\<close> is \<open>toks.map(Number)[i] || 0\<close>: a missing
  token (\<open>undefined\<close>), NaN and zero all give 0.
\<close>

definition numAt :: "(string \<Rightarrow> real option) \<Rightarrow> string list \<Rightarrow> nat \<Rightarrow> real" where
  "numAt Number toks i =
     (if i < length toks then (case Number (toks ! i) of None \<Rightarrow> 0 | Some v \<Rightarrow> v) else 0)"

text \<open>
  A conversion for concrete inputs: \<open>Number\<close> on the decimal literals without an
  exponent (an optional sign, digits, an optional fraction), where it is exact over
  the reals, and on the empty string, which is 0. Everything else is NaN here, so
  \<open>NumberDecimal\<close> stands for \<open>Number\<close> on tokens of this form only.
\<close>

definition isDigit :: "char \<Rightarrow> bool" where
  "isDigit c = (let n = (of_char c :: nat) in 48 \<le> n \<and> n \<le> 57)"

definition digitsValue :: "string \<Rightarrow> nat" where
  "digitsValue ds = foldl (\<lambda>acc c. 10 * acc + (of_char c - 48)) 0 ds"

definition unsignedDecimal :: "string \<Rightarrow> real option" where
  "unsignedDecimal s =
     (let ip = takeWhile isDigit s; r = dropWhile isDigit s
      in (case r of
            [] \<Rightarrow> if ip = [] then None else Some (real (digitsValue ip))
          | c # fp \<Rightarrow>
              if c = CHR ''.'' \<and> list_all isDigit fp \<and> (ip \<noteq> [] \<or> fp \<noteq> [])
              then Some (real (digitsValue ip) + real (digitsValue fp) / 10 ^ length fp)
              else None))"

definition NumberDecimal :: "string \<Rightarrow> real option" where
  "NumberDecimal s =
     (case s of
        [] \<Rightarrow> Some 0
      | c # r \<Rightarrow>
          if c = CHR ''-'' then map_option uminus (unsignedDecimal r)
          else if c = CHR ''+'' then unsignedDecimal r
          else unsignedDecimal s)"

text \<open>\<open>parseXyz(s?)\<close>: \<open>!s\<close> holds for \<open>undefined\<close> and for the empty string.\<close>

definition parseXyz :: "(string \<Rightarrow> real option) \<Rightarrow> string option \<Rightarrow> MathVec3" where
  "parseXyz Number s =
     (case s of
        None \<Rightarrow> vec3 0 0 0
      | Some str \<Rightarrow>
          if str = [] then vec3 0 0 0
          else (let toks = splitWs str
                in vec3 (numAt Number toks 0) (numAt Number toks 1) (numAt Number toks 2)))"

definition parseXyzVec :: "(string \<Rightarrow> real option) \<Rightarrow> string \<Rightarrow> MathVec3" where
  "parseXyzVec Number s = parseXyz Number (Some s)"

definition parseRpy :: "(string \<Rightarrow> real option) \<Rightarrow> string option \<Rightarrow> MathQuat" where
  "parseRpy Number s =
     (case s of
        None \<Rightarrow> quatIdentity
      | Some str \<Rightarrow>
          if str = [] then quatIdentity
          else (let toks = splitWs str
                in quatFromRPY (numAt Number toks 0) (numAt Number toks 1) (numAt Number toks 2)))"

text \<open>\<open>includes(type) ? type : 'fixed'\<close> on the trimmed \<open>type\<close> attribute.\<close>

definition jointTypeOf :: "string \<Rightarrow> JointType" where
  "jointTypeOf ty =
     (if ty = ''revolute'' then Revolute
      else if ty = ''continuous'' then Continuous
      else if ty = ''prismatic'' then Prismatic
      else Fixed)"

text \<open>\<open>attrs?.key\<close> on the result of \<open>parseFirstSelfOrOpenTag\<close>.\<close>

definition attrOf :: "(string \<rightharpoonup> string) option \<Rightarrow> string \<Rightarrow> string option" where
  "attrOf attrs key = (case attrs of None \<Rightarrow> None | Some a \<Rightarrow> a key)"

text \<open>\<open>!v\<close> for a value that is a string or \<open>null\<close>.\<close>

definition falsy :: "string option \<Rightarrow> bool" where
  "falsy v = (v = None \<or> v = Some [])"

text \<open>The axis before it is normalised: \<open>vec3(1, 0, 0)\<close>, replaced by
  \<open>parseXyzVec(axisAttrs.xyz)\<close> when \<open>axisAttrs?.xyz\<close> is a string that is not empty.\<close>

definition axisOfBlock :: "(string \<Rightarrow> real option) \<Rightarrow> string \<Rightarrow> MathVec3" where
  "axisOfBlock Number block =
     (let axisAttrs = parseFirstSelfOrOpenTag block ''axis''
      in if falsy (attrOf axisAttrs ''xyz'') then vec3 1 0 0
         else parseXyzVec Number (the (attrOf axisAttrs ''xyz'')))"

definition parseJointBlock :: "(string \<Rightarrow> real option) \<Rightarrow> string \<Rightarrow> UrdfJoint option" where
  "parseJointBlock Number block =
     (case regexExec (matchOpenTagAt ''joint'') block of
        None \<Rightarrow> None
      | Some openMatch \<Rightarrow>
          (let openAttrs = parseAttrs openMatch;
               name = trim (case openAttrs ''name'' of None \<Rightarrow> [] | Some v \<Rightarrow> v);
               ty = trim (case openAttrs ''type'' of None \<Rightarrow> ''fixed'' | Some v \<Rightarrow> v);
               parentLink = parseSingleTagAttr block ''parent'' ''link'';
               childLink = parseSingleTagAttr block ''child'' ''link''
           in if name = [] \<or> falsy parentLink \<or> falsy childLink then None
              else (let originAttrs = parseFirstSelfOrOpenTag block ''origin'';
                        originT = parseXyz Number (attrOf originAttrs ''xyz'');
                        originRpy = parseRpy Number (attrOf originAttrs ''rpy'');
                        origin = \<lparr>tr_r = originRpy, tr_t = originT\<rparr>;
                        axis = axisOfBlock Number block
                    in Some \<lparr>j_name = name,
                             j_type = jointTypeOf ty,
                             j_parent = the parentLink,
                             j_child = the childLink,
                             j_origin = origin,
                             j_axis = vec3Normalize axis,
                             j_q = 0\<rparr>)))"

text \<open>The body of the loop of \<open>parseUrdf\<close>, for the joint object at address \<open>a\<close>.\<close>

definition addJoint :: "nat \<times> UrdfJoint \<Rightarrow> UrdfModel \<Rightarrow> UrdfModel" where
  "addJoint aj m =
     (let a = fst aj; j = snd aj;
          arr = (case map_of (jointsByParentLink m) (j_parent j) of None \<Rightarrow> [] | Some old \<Rightarrow> old)
      in m\<lparr>jointsByName := AList.update (j_name j) a (jointsByName m),
           linkParent := AList.update (j_child j) (j_parent j) (linkParent m),
           jointsByParentLink := AList.update (j_parent j) (arr @ [a]) (jointsByParentLink m)\<rparr>)"

text \<open>The second half of \<open>parseUrdf\<close>: the three maps, filled by the loop over the
  joints.\<close>

definition buildModel :: "UrdfJoint list \<Rightarrow> UrdfModel" where
  "buildModel js =
     fold addJoint (enumerate 0 js)
       \<lparr>joints = js, jointsByName = [], jointsByParentLink = [], linkParent = []\<rparr>"

text \<open>\<open>extractJointBlocks(xml).map(parseJointBlock).filter(j => !!j)\<close> keeps the
  joints of the blocks that parse, in the order of the blocks.\<close>

definition parseUrdf :: "(string \<Rightarrow> real option) \<Rightarrow> string \<Rightarrow> UrdfModel" where
  "parseUrdf Number xml =
     buildModel (List.map_filter (parseJointBlock Number) (extractJointBlocks xml))"

text \<open>\<open>fromXml\<close>. The other constructor, \<open>fromUrl\<close>, differs only in where the text
  comes from (\<open>fetchText\<close>), and is not part of the embedding.\<close>

record CreateFromXmlOptions =
  opt_xml :: string

definition fromXml :: "(string \<Rightarrow> real option) \<Rightarrow> CreateFromXmlOptions \<Rightarrow> UrdfModel" where
  "fromXml Number opts = parseUrdf Number (opt_xml opts)"

subsection \<open>The engine: \<open>setJointState\<close>, \<open>compute\<close>, \<open>computeFromJointState\<close>\<close>

text \<open>\<open>jointState.position[i] ?? 0\<close>: a read past the end is \<open>undefined\<close>, hence 0.\<close>

definition positionOr0 :: "real list \<Rightarrow> nat \<Rightarrow> real" where
  "positionOr0 ps i = (if i < length ps then ps ! i else 0)"

text \<open>The first \<open>forEach\<close> of \<open>setJointState\<close>: \<open>nameToPos.set(n, position[i] ?? 0)\<close>
  for every index \<open>i\<close> of \<open>name\<close>, in order.\<close>

definition nameToPos :: "JointState \<Rightarrow> (string \<times> real) list" where
  "nameToPos jointState =
     fold (\<lambda>(i, n) m. AList.update n (positionOr0 (js_position jointState) i) m)
       (enumerate 0 (js_name jointState)) []"

text \<open>The body of the second \<open>forEach\<close>: look the name up, and write \<open>q\<close> of the joint
  object found.\<close>

definition setOne :: "string \<times> real \<Rightarrow> UrdfModel \<Rightarrow> UrdfModel" where
  "setOne np m =
     (case map_of (jointsByName m) (fst np) of
        None \<Rightarrow> m
      | Some a \<Rightarrow> m\<lparr>joints := (joints m)[a := (joints m ! a)\<lparr>j_q := snd np\<rparr>]\<rparr>)"

definition setJointState :: "JointState \<Rightarrow> UrdfModel \<Rightarrow> UrdfModel" where
  "setJointState jointState m = fold setOne (nameToPos jointState) m"

text \<open>\<open>Math.trunc\<close>, and the remainder \<open>a % b\<close> of JavaScript, whose sign is that of
  the dividend (\<open>compute\<close> uses it with the divisor \<open>1e9\<close> only).\<close>

definition Math_trunc :: "real \<Rightarrow> real" where
  "Math_trunc v = (if v < 0 then of_int \<lceil>v\<rceil> else of_int \<lfloor>v\<rfloor>)"

definition jsRem :: "real \<Rightarrow> real \<Rightarrow> real" where
  "jsRem a b = a - b * Math_trunc (a / b)"

text \<open>\<open>options.publishTimeNs ? \<dots> : 0\<close>: the branch is taken when the option is
  present and not zero.\<close>

definition stampOf :: "ComputeOptions \<Rightarrow> Time" where
  "stampOf options =
     (case publishTimeNs options of
        None \<Rightarrow> \<lparr>sec = 0, nanosec = 0\<rparr>
      | Some ns \<Rightarrow>
          \<lparr>sec = (if ns \<noteq> 0 then Math_trunc (ns / 1000000000) else 0),
           nanosec = (if ns \<noteq> 0 then Math_trunc (jsRem ns 1000000000) else 0)\<rparr>)"

text \<open>The body of the \<open>forEach\<close> of \<open>compute\<close>, for the joint object \<open>joint\<close>.\<close>

definition jointTransform :: "ComputeOptions \<Rightarrow> UrdfJoint \<Rightarrow> TransformStamped" where
  "jointTransform options joint =
     (let motion = jointMotionTR joint;
          rel = composeTR (j_origin joint) motion
      in \<lparr>header = \<lparr>stamp = stampOf options, frame_id = j_parent joint\<rparr>,
          child_frame_id = j_child joint,
          transform =
            \<lparr>translation = \<lparr>vx = vx (tr_t rel), vy = vy (tr_t rel), vz = vz (tr_t rel)\<rparr>,
             rotation = \<lparr>qx = qx (tr_r rel), qy = qy (tr_r rel), qz = qz (tr_r rel),
                         qw = qw (tr_r rel)\<rparr>\<rparr>\<rparr>)"

text \<open>A method that is called with or without its \<open>options\<close> argument:
  \<open>options: ComputeOptions = {}\<close>.\<close>

definition optionsOrDefault :: "ComputeOptions option \<Rightarrow> ComputeOptions" where
  "optionsOrDefault oo = (case oo of None \<Rightarrow> \<lparr>publishTimeNs = None\<rparr> | Some opts \<Rightarrow> opts)"

text \<open>\<open>compute\<close> pushes one record per entry of \<open>jointsByName\<close>, in the order of the
  map. A method returns its result and the state it leaves.\<close>

definition compute :: "ComputeOptions option \<Rightarrow> UrdfModel \<Rightarrow> TFMessage \<times> UrdfModel" where
  "compute oo m =
     (let options = optionsOrDefault oo;
          ts = fold (\<lambda>(n, a) acc. acc @ [jointTransform options (joints m ! a)])
                 (jointsByName m) []
      in (\<lparr>transforms = ts\<rparr>, m))"

definition computeFromJointState ::
  "JointState \<Rightarrow> ComputeOptions option \<Rightarrow> UrdfModel \<Rightarrow> TFMessage \<times> UrdfModel" where
  "computeFromJointState jointState oo m =
     (let options = optionsOrDefault oo;
          m1 = setJointState jointState m
      in compute (Some options) m1)"

subsection \<open>Notions of the specification\<close>

text \<open>The Hamilton product in its scalar and vector form: the scalar part is
  \<open>a\<^sub>w b\<^sub>w - a \<cdot> b\<close>, the vector part is \<open>a\<^sub>w b + b\<^sub>w a + a \<times> b\<close>.\<close>

definition vecDot :: "MathVec3 \<Rightarrow> MathVec3 \<Rightarrow> real" where
  "vecDot a b = vx a * vx b + vy a * vy b + vz a * vz b"

definition vecCross :: "MathVec3 \<Rightarrow> MathVec3 \<Rightarrow> MathVec3" where
  "vecCross a b =
     \<lparr>vx = vy a * vz b - vz a * vy b,
      vy = vz a * vx b - vx a * vz b,
      vz = vx a * vy b - vy a * vx b\<rparr>"

definition quatVec :: "MathQuat \<Rightarrow> MathVec3" where
  "quatVec a = \<lparr>vx = qx a, vy = qy a, vz = qz a\<rparr>"

definition hamiltonProduct :: "MathQuat \<Rightarrow> MathQuat \<Rightarrow> MathQuat" where
  "hamiltonProduct a b =
     (let v = vec3Add (vec3Add (vec3Scale (quatVec b) (qw a)) (vec3Scale (quatVec a) (qw b)))
                (vecCross (quatVec a) (quatVec b))
      in \<lparr>qx = vx v, qy = vy v, qz = vz v, qw = qw a * qw b - vecDot (quatVec a) (quatVec b)\<rparr>)"

text \<open>The invariant of an engine: the name map has distinct keys and distinct
  addresses, every address is in the store, and a joint is filed under its own
  name.\<close>

definition wfModel :: "UrdfModel \<Rightarrow> bool" where
  "wfModel m =
     (distinct (map fst (jointsByName m)) \<and> distinct (map snd (jointsByName m)) \<and>
      (\<forall>na \<in> set (jointsByName m).
         snd na < length (joints m) \<and> j_name (joints m ! snd na) = fst na))"

text \<open>A block has a self-closing element \<open>tag\<close>: somewhere in it stands \<open><tag\<close>, at
  a word boundary, then text without \<open>>\<close>, then \<open>/>\<close>.\<close>

definition hasSelfClosing :: "string \<Rightarrow> string \<Rightarrow> bool" where
  "hasSelfClosing tag block =
     (\<exists>pre attrs post. block = pre @ ''<'' @ tag @ attrs @ ''/>'' @ post \<and>
        CHR ''>'' \<notin> set attrs \<and> wordBoundary (''<'' @ tag) (attrs @ ''/>'' @ post))"

subsection \<open>Concrete descriptions and updates\<close>

text \<open>
  \<open>miniUrdf\<close> is the description of the repository's own test, with one space for
  each line break and indentation; its two joint blocks and the joints they parse to
  follow, then the update of that test and a second update, with a repeated name, a
  name that is not in the model and a position array that is too short. The other
  descriptions are a block without a \<open>parent\<close> element followed by
  a complete one, two blocks with the same joint name, a block whose axis is \<open>0 0 0\<close>,
  and two blocks without a usable name followed by a complete one.
\<close>

definition miniUrdf :: string where
  "miniUrdf = ''<robot name=\"mini\"> <link name=\"base_link\"/> <link name=\"link1\"/> <link name=\"link2\"/> <joint name=\"joint1\" type=\"revolute\"> <parent link=\"base_link\"/> <child link=\"link1\"/> <origin xyz=\"1 0 0\" rpy=\"0 0 0\"/> <axis xyz=\"0 0 1\"/> </joint> <joint name=\"joint2\" type=\"prismatic\"> <parent link=\"link1\"/> <child link=\"link2\"/> <origin xyz=\"0 1 0\" rpy=\"0 0 0\"/> <axis xyz=\"1 0 0\"/> </joint> </robot>''"

definition miniBlock1 :: string where
  "miniBlock1 = ''<joint name=\"joint1\" type=\"revolute\"> <parent link=\"base_link\"/> <child link=\"link1\"/> <origin xyz=\"1 0 0\" rpy=\"0 0 0\"/> <axis xyz=\"0 0 1\"/> </joint>''"

definition miniBlock2 :: string where
  "miniBlock2 = ''<joint name=\"joint2\" type=\"prismatic\"> <parent link=\"link1\"/> <child link=\"link2\"/> <origin xyz=\"0 1 0\" rpy=\"0 0 0\"/> <axis xyz=\"1 0 0\"/> </joint>''"

definition miniJoint1 :: UrdfJoint where
  "miniJoint1 = \<lparr>j_name = ''joint1'', j_type = Revolute, j_parent = ''base_link'', j_child = ''link1'',
      j_origin = \<lparr>tr_r = \<lparr>qx = 0, qy = 0, qz = 0, qw = 1\<rparr>, tr_t = \<lparr>vx = 1, vy = 0, vz = 0\<rparr>\<rparr>,
      j_axis = \<lparr>vx = 0, vy = 0, vz = 1\<rparr>, j_q = 0\<rparr>"

definition miniJoint2 :: UrdfJoint where
  "miniJoint2 = \<lparr>j_name = ''joint2'', j_type = Prismatic, j_parent = ''link1'', j_child = ''link2'',
      j_origin = \<lparr>tr_r = \<lparr>qx = 0, qy = 0, qz = 0, qw = 1\<rparr>, tr_t = \<lparr>vx = 0, vy = 1, vz = 0\<rparr>\<rparr>,
      j_axis = \<lparr>vx = 1, vy = 0, vz = 0\<rparr>, j_q = 0\<rparr>"

definition testUpdate :: JointState where
  "testUpdate = \<lparr>js_header = \<lparr>stamp = \<lparr>sec = 0, nanosec = 0\<rparr>, frame_id = []\<rparr>,
                  js_name = [''joint1'', ''joint2''],
                  js_position = [pi / 2, 1 / 2]\<rparr>"

definition miniUpdate :: JointState where
  "miniUpdate = \<lparr>js_header = \<lparr>stamp = \<lparr>sec = 0, nanosec = 0\<rparr>, frame_id = []\<rparr>,
                  js_name = [''joint2'', ''ghost'', ''joint2'', ''joint1''],
                  js_position = [1, 2, 1 / 2]\<rparr>"

definition partialUrdf :: string where
  "partialUrdf = ''<joint name=\"a\"><child link=\"c\"/></joint><joint name=\"b\"><parent link=\"p\"/><child link=\"c\"/></joint>''"

definition partialBlockA :: string where
  "partialBlockA = ''<joint name=\"a\"><child link=\"c\"/></joint>''"

definition partialBlockB :: string where
  "partialBlockB = ''<joint name=\"b\"><parent link=\"p\"/><child link=\"c\"/></joint>''"

definition partialJointB :: UrdfJoint where
  "partialJointB = \<lparr>j_name = ''b'', j_type = Fixed, j_parent = ''p'', j_child = ''c'',
      j_origin = \<lparr>tr_r = \<lparr>qx = 0, qy = 0, qz = 0, qw = 1\<rparr>, tr_t = \<lparr>vx = 0, vy = 0, vz = 0\<rparr>\<rparr>,
      j_axis = \<lparr>vx = 1, vy = 0, vz = 0\<rparr>, j_q = 0\<rparr>"

definition fiveUpdate :: JointState where
  "fiveUpdate = \<lparr>js_header = \<lparr>stamp = \<lparr>sec = 0, nanosec = 0\<rparr>, frame_id = []\<rparr>,
                  js_name = [''b''], js_position = [5]\<rparr>"

definition sevenUpdate :: JointState where
  "sevenUpdate = \<lparr>js_header = \<lparr>stamp = \<lparr>sec = 0, nanosec = 0\<rparr>, frame_id = []\<rparr>,
                  js_name = [''b''], js_position = [7]\<rparr>"

definition dupUrdf :: string where
  "dupUrdf = ''<joint name=\"d\"><parent link=\"p\"/><child link=\"c\"/></joint><joint name=\"d\" type=\"prismatic\"><parent link=\"p\"/><child link=\"e\"/></joint>''"

definition dupBlock1 :: string where
  "dupBlock1 = ''<joint name=\"d\"><parent link=\"p\"/><child link=\"c\"/></joint>''"

definition dupBlock2 :: string where
  "dupBlock2 = ''<joint name=\"d\" type=\"prismatic\"><parent link=\"p\"/><child link=\"e\"/></joint>''"

definition dupJoint1 :: UrdfJoint where
  "dupJoint1 = \<lparr>j_name = ''d'', j_type = Fixed, j_parent = ''p'', j_child = ''c'',
      j_origin = \<lparr>tr_r = \<lparr>qx = 0, qy = 0, qz = 0, qw = 1\<rparr>, tr_t = \<lparr>vx = 0, vy = 0, vz = 0\<rparr>\<rparr>,
      j_axis = \<lparr>vx = 1, vy = 0, vz = 0\<rparr>, j_q = 0\<rparr>"

definition dupJoint2 :: UrdfJoint where
  "dupJoint2 = \<lparr>j_name = ''d'', j_type = Prismatic, j_parent = ''p'', j_child = ''e'',
      j_origin = \<lparr>tr_r = \<lparr>qx = 0, qy = 0, qz = 0, qw = 1\<rparr>, tr_t = \<lparr>vx = 0, vy = 0, vz = 0\<rparr>\<rparr>,
      j_axis = \<lparr>vx = 1, vy = 0, vz = 0\<rparr>, j_q = 0\<rparr>"

definition dupUpdate :: JointState where
  "dupUpdate = \<lparr>js_header = \<lparr>stamp = \<lparr>sec = 0, nanosec = 0\<rparr>, frame_id = []\<rparr>,
                 js_name = [''d''], js_position = [9]\<rparr>"

definition ghostUpdate :: JointState where
  "ghostUpdate = \<lparr>js_header = \<lparr>stamp = \<lparr>sec = 0, nanosec = 0\<rparr>, frame_id = []\<rparr>,
                   js_name = [''ghost''], js_position = [4]\<rparr>"

definition zeroAxisUrdf :: string where
  "zeroAxisUrdf = ''<joint name=\"j\"><parent link=\"a\"/><child link=\"b\"/><axis xyz=\"0 0 0\"/></joint>''"

definition zeroAxisJoint :: UrdfJoint where
  "zeroAxisJoint = \<lparr>j_name = ''j'', j_type = Fixed, j_parent = ''a'', j_child = ''b'',
      j_origin = \<lparr>tr_r = \<lparr>qx = 0, qy = 0, qz = 0, qw = 1\<rparr>, tr_t = \<lparr>vx = 0, vy = 0, vz = 0\<rparr>\<rparr>,
      j_axis = \<lparr>vx = 0, vy = 0, vz = 0\<rparr>, j_q = 0\<rparr>"

definition namelessUrdf :: string where
  "namelessUrdf = ''<joint type=\"revolute\"><parent link=\"p\"/><child link=\"c\"/></joint><joint name=\"  \"><parent link=\"p\"/><child link=\"c\"/></joint><joint name=\"k\"><parent link=\"p\"/><child link=\"d\"/></joint>''"

definition namelessBlock1 :: string where
  "namelessBlock1 = ''<joint type=\"revolute\"><parent link=\"p\"/><child link=\"c\"/></joint>''"

definition namelessBlock2 :: string where
  "namelessBlock2 = ''<joint name=\"  \"><parent link=\"p\"/><child link=\"c\"/></joint>''"

definition namelessBlock3 :: string where
  "namelessBlock3 = ''<joint name=\"k\"><parent link=\"p\"/><child link=\"d\"/></joint>''"

definition namelessJoint3 :: UrdfJoint where
  "namelessJoint3 = \<lparr>j_name = ''k'', j_type = Fixed, j_parent = ''p'', j_child = ''d'',
      j_origin = \<lparr>tr_r = \<lparr>qx = 0, qy = 0, qz = 0, qw = 1\<rparr>, tr_t = \<lparr>vx = 0, vy = 0, vz = 0\<rparr>\<rparr>,
      j_axis = \<lparr>vx = 1, vy = 0, vz = 0\<rparr>, j_q = 0\<rparr>"

section \<open>Properties\<close>

subsection \<open>The motion model and the composition of transforms\<close>

text \<open>
  C2. The motion of a joint, by type: a revolute or continuous joint gives the
  rotation \<open>quatFromAxisAngle axis value\<close> and the zero translation; a prismatic
  joint gives the identity rotation and the translation \<open>vec3Scale axis value\<close>; a
  fixed joint gives the identity rotation and the zero translation. The last
  equation reads the type from the \<open>type\<close> attribute as the parser does: every text
  other than the three moving types is a fixed joint.
\<close>

theorem jointMotionTR_by_type:
  "jointMotionTR (j\<lparr>j_type := Revolute\<rparr>)
     = \<lparr>tr_r = quatFromAxisAngle (j_axis j) (j_q j), tr_t = \<lparr>vx = 0, vy = 0, vz = 0\<rparr>\<rparr> \<and>
   jointMotionTR (j\<lparr>j_type := Continuous\<rparr>)
     = \<lparr>tr_r = quatFromAxisAngle (j_axis j) (j_q j), tr_t = \<lparr>vx = 0, vy = 0, vz = 0\<rparr>\<rparr> \<and>
   jointMotionTR (j\<lparr>j_type := Prismatic\<rparr>)
     = \<lparr>tr_r = \<lparr>qx = 0, qy = 0, qz = 0, qw = 1\<rparr>, tr_t = vec3Scale (j_axis j) (j_q j)\<rparr> \<and>
   jointMotionTR (j\<lparr>j_type := Fixed\<rparr>)
     = \<lparr>tr_r = \<lparr>qx = 0, qy = 0, qz = 0, qw = 1\<rparr>, tr_t = \<lparr>vx = 0, vy = 0, vz = 0\<rparr>\<rparr> \<and>
   jointMotionTR (j\<lparr>j_type := jointTypeOf ty\<rparr>)
     = (if ty = ''revolute'' \<or> ty = ''continuous''
        then \<lparr>tr_r = quatFromAxisAngle (j_axis j) (j_q j), tr_t = \<lparr>vx = 0, vy = 0, vz = 0\<rparr>\<rparr>
        else if ty = ''prismatic''
        then \<lparr>tr_r = \<lparr>qx = 0, qy = 0, qz = 0, qw = 1\<rparr>, tr_t = vec3Scale (j_axis j) (j_q j)\<rparr>
        else \<lparr>tr_r = \<lparr>qx = 0, qy = 0, qz = 0, qw = 1\<rparr>, tr_t = \<lparr>vx = 0, vy = 0, vz = 0\<rparr>\<rparr>)"
  by (simp add: jointMotionTR_def jointTypeOf_def vec3_def quatIdentity_def)

lemma quatMultiply_hamilton: "quatMultiply a b = hamiltonProduct a b"
  by (simp add: quatMultiply_def hamiltonProduct_def Let_def vec3Add_def vec3Scale_def
      vecCross_def vecDot_def quatVec_def algebra_simps)

text \<open>
  C3. The rotation of \<open>composeTR a b\<close> is \<open>quatMultiply\<close> of the two rotations, which
  is their Hamilton product, and its translation is the translation of \<open>a\<close> plus
  the translation of \<open>b\<close> rotated by the rotation of \<open>a\<close>.
\<close>

theorem composeTR_law:
  "tr_r (composeTR a b) = quatMultiply (tr_r a) (tr_r b) \<and>
   quatMultiply (tr_r a) (tr_r b) = hamiltonProduct (tr_r a) (tr_r b) \<and>
   tr_t (composeTR a b) = vec3Add (tr_t a) (vec3RotateByQuat (tr_t b) (tr_r a))"
  by (simp add: composeTR_def quatMultiply_hamilton)

subsection \<open>\<open>compute\<close>\<close>

lemma fold_snoc_map: "fold (\<lambda>x acc. acc @ [f x]) xs ys = ys @ map f xs"
  by (induction xs arbitrary: ys) simp_all

lemma compute_transforms:
  "transforms (fst (compute oo m)) =
     map (\<lambda>na. jointTransform (optionsOrDefault oo) (joints m ! snd na)) (jointsByName m)"
  by (simp add: compute_def Let_def case_prod_unfold fold_snoc_map)

lemma compute_state: "snd (compute oo m) = m"
  by (simp add: compute_def Let_def)

lemma optionsOrDefault_idem:
  "optionsOrDefault (Some (optionsOrDefault oo)) = optionsOrDefault oo"
  by (simp add: optionsOrDefault_def)

lemma compute_cong:
  "optionsOrDefault oo = optionsOrDefault oo' \<Longrightarrow> compute oo m = compute oo' m"
  by (simp add: compute_def)

text \<open>
  C7. \<open>compute\<close> returns the engine state it was given, the model and every joint
  value included, and a second \<open>compute\<close> with the same options, run on the state
  the first one left, returns the same message.
\<close>

theorem compute_pure:
  "snd (compute oo m) = m \<and>
   fst (compute oo (snd (compute oo m))) = fst (compute oo m)"
  by (simp add: compute_state)

text \<open>
  C8. \<open>computeFromJointState\<close> returns the message and leaves the state that
  \<open>setJointState\<close> followed by \<open>compute\<close> with the same options argument returns and
  leaves, whether the options argument is given or not.
\<close>

theorem computeFromJointState_is_set_then_compute:
  "computeFromJointState jointState oo m = compute oo (setJointState jointState m)"
  unfolding computeFromJointState_def Let_def
  by (rule compute_cong) (rule optionsOrDefault_idem)

subsection \<open>The time stamp\<close>

lemma Math_trunc_of_int: "Math_trunc (of_int k) = of_int k"
  by (simp add: Math_trunc_def)

lemma Math_trunc_int: "Math_trunc v \<in> \<int>"
  by (simp add: Math_trunc_def)

lemma stamp_split:
  assumes "ns \<in> \<int>"
  shows "Math_trunc (ns / 1000000000) * 1000000000
           + Math_trunc (ns - 1000000000 * Math_trunc (ns / 1000000000)) = ns"
proof -
  from assms obtain k where k: "ns = of_int k" by (auto elim: Ints_cases)
  define t where "t = Math_trunc (ns / 1000000000)"
  obtain q where q: "t = of_int q"
    using Math_trunc_int [of "ns / 1000000000"] unfolding t_def by (auto elim: Ints_cases)
  have "ns - 1000000000 * t = of_int (k - 1000000000 * q)"
    unfolding k q by simp
  then have "Math_trunc (ns - 1000000000 * t) = ns - 1000000000 * t"
    by (simp only: Math_trunc_of_int)
  then have "t * 1000000000 + Math_trunc (ns - 1000000000 * t) = ns"
    by (simp add: algebra_simps)
  then show ?thesis
    unfolding t_def .
qed

lemma Math_trunc_near: "\<bar>v - Math_trunc v\<bar> < 1"
proof (cases "v < 0")
  case True
  define c :: real where "c = of_int \<lceil>v\<rceil>"
  have "c - 1 < v" and "v \<le> c"
    unfolding c_def using ceiling_correct [of v] by simp_all
  then have "\<bar>v - c\<bar> < 1"
    by linarith
  with True show ?thesis
    by (simp add: Math_trunc_def c_def)
next
  case False
  define c :: real where "c = of_int \<lfloor>v\<rfloor>"
  have "c \<le> v" and "v < c + 1"
    unfolding c_def using floor_correct [of v] by simp_all
  then have "\<bar>v - c\<bar> < 1"
    by linarith
  with False show ?thesis
    by (simp add: Math_trunc_def c_def)
qed

lemma stamp_bound:
  "\<bar>ns - 1000000000 * Math_trunc (ns / 1000000000)\<bar> < 1000000000"
proof -
  define t where "t = Math_trunc (ns / 1000000000)"
  have "\<bar>ns / 1000000000 - t\<bar> < 1"
    unfolding t_def by (rule Math_trunc_near)
  then have "\<bar>ns - 1000000000 * t\<bar> < 1000000000"
    by (simp add: abs_if split: if_splits)
  then show ?thesis unfolding t_def .
qed


lemma stampOf_eq:
  "stampOf opts =
     (case publishTimeNs opts of
        None \<Rightarrow> \<lparr>sec = 0, nanosec = 0\<rparr>
      | Some ns \<Rightarrow> \<lparr>sec = Math_trunc (ns / 1000000000),
                    nanosec = Math_trunc (ns - 1000000000 * Math_trunc (ns / 1000000000))\<rparr>)"
  by (simp add: stampOf_def jsRem_def Math_trunc_def split: option.splits)

text \<open>
  C1. \<open>compute\<close> returns one record per entry of the name map, in the order of the
  map. The record at position \<open>i\<close> has the parent link of the \<open>i\<close>-th joint as frame
  label, its child link, and the translation and rotation of
  \<open>composeTR origin (jointMotionTR joint)\<close>. Its stamp is \<open>(0, 0)\<close> without a publish
  time; with a publish time \<open>ns\<close> the seconds are \<open>ns / 1e9\<close> truncated and the
  nanoseconds are the truncated remainder of that division, so that for a whole
  number \<open>ns\<close> of nanoseconds the two add up to \<open>ns\<close> again, with a nanosecond
  part below \<open>1e9\<close> in absolute value.
\<close>

theorem compute_records:
  "length (transforms (fst (compute oo m))) = length (jointsByName m) \<and>
   (\<forall>i < length (jointsByName m).
      frame_id (header (transforms (fst (compute oo m)) ! i))
        = j_parent (joints m ! snd (jointsByName m ! i)) \<and>
      child_frame_id (transforms (fst (compute oo m)) ! i)
        = j_child (joints m ! snd (jointsByName m ! i)) \<and>
      translation (transform (transforms (fst (compute oo m)) ! i))
        = tr_t (composeTR (j_origin (joints m ! snd (jointsByName m ! i)))
                  (jointMotionTR (joints m ! snd (jointsByName m ! i)))) \<and>
      rotation (transform (transforms (fst (compute oo m)) ! i))
        = tr_r (composeTR (j_origin (joints m ! snd (jointsByName m ! i)))
                  (jointMotionTR (joints m ! snd (jointsByName m ! i)))) \<and>
      stamp (header (transforms (fst (compute oo m)) ! i))
        = (case publishTimeNs (optionsOrDefault oo) of
             None \<Rightarrow> \<lparr>sec = 0, nanosec = 0\<rparr>
           | Some ns \<Rightarrow>
               \<lparr>sec = Math_trunc (ns / 1000000000),
                nanosec = Math_trunc (ns - 1000000000 * Math_trunc (ns / 1000000000))\<rparr>)) \<and>
   (\<forall>ns \<in> \<int>.
      Math_trunc (ns / 1000000000) * 1000000000
        + Math_trunc (ns - 1000000000 * Math_trunc (ns / 1000000000)) = ns \<and>
      \<bar>Math_trunc (ns - 1000000000 * Math_trunc (ns / 1000000000))\<bar> < 1000000000)"
proof -
  have "\<bar>Math_trunc (ns - 1000000000 * Math_trunc (ns / 1000000000))\<bar> < 1000000000"
    if "ns \<in> \<int>" for ns
  proof -
    from that Math_trunc_int [of "ns / 1000000000"]
    have "ns - 1000000000 * Math_trunc (ns / 1000000000) \<in> \<int>"
      by (intro Ints_diff Ints_mult) simp_all
    then have "Math_trunc (ns - 1000000000 * Math_trunc (ns / 1000000000))
                 = ns - 1000000000 * Math_trunc (ns / 1000000000)"
      by (auto elim!: Ints_cases simp only: Math_trunc_of_int)
    then show ?thesis
      using stamp_bound [of ns] by simp
  qed
  then show ?thesis
    by (simp add: compute_transforms jointTransform_def Let_def stampOf_eq stamp_split)
qed

subsection \<open>\<open>setJointState\<close>\<close>

lemma map_of_nameToPos_fold:
  "map_of (fold (\<lambda>(i, n) m. AList.update n (g i) m) (enumerate k ns) acc)
     = fold (\<lambda>(i, n) f. f(n \<mapsto> g i)) (enumerate k ns) (map_of acc)"
  by (induction ns arbitrary: k acc) (simp_all add: update_conv')

lemma distinct_nameToPos_fold:
  "distinct (map fst acc) \<Longrightarrow>
   distinct (map fst (fold (\<lambda>(i, n) m. AList.update n (g i) m) (enumerate k ns) acc))"
  by (induction ns arbitrary: k acc) (simp_all add: distinct_update)

lemma keys_nameToPos_fold:
  "fst ` set (fold (\<lambda>(i, n) m. AList.update n (g i) m) (enumerate k ns) acc)
     = set ns \<union> fst ` set acc"
  by (induction ns arbitrary: k acc) (auto simp: dom_update)

lemma fold_upd_absent:
  "x \<notin> set ns \<Longrightarrow> fold (\<lambda>(i, n) f. f(n \<mapsto> g i)) (enumerate k ns) f0 x = f0 x"
  by (induction ns arbitrary: k f0) auto

lemma fold_upd_last:
  "i < length ns \<Longrightarrow> ns ! i = x \<Longrightarrow> (\<forall>j. i < j \<and> j < length ns \<longrightarrow> ns ! j \<noteq> x) \<Longrightarrow>
   fold (\<lambda>(i, n) f. f(n \<mapsto> g i)) (enumerate k ns) f0 x = Some (g (k + i))"
proof (induction ns arbitrary: k f0 i)
  case Nil
  then show ?case by simp
next
  case (Cons n ns)
  show ?case
  proof (cases i)
    case 0
    with Cons.prems have nx: "n = x" by simp
    have "x \<notin> set ns"
    proof
      assume "x \<in> set ns"
      then obtain j where "j < length ns" "ns ! j = x" by (auto simp: in_set_conv_nth)
      with Cons.prems(3) [rule_format, of "Suc j"] 0 show False by simp
    qed
    have "fold (\<lambda>(i, n) f. f(n \<mapsto> g i)) (enumerate k (n # ns)) f0 x
            = fold (\<lambda>(i, n) f. f(n \<mapsto> g i)) (enumerate (Suc k) ns) (f0(n \<mapsto> g k)) x"
      by simp
    also have "\<dots> = (f0(n \<mapsto> g k)) x"
      using \<open>x \<notin> set ns\<close> by (rule fold_upd_absent)
    also have "\<dots> = Some (g (k + i))"
      using 0 nx by simp
    finally show ?thesis .
  next
    case (Suc i')
    with Cons.prems have "i' < length ns" "ns ! i' = x"
      "\<forall>j. i' < j \<and> j < length ns \<longrightarrow> ns ! j \<noteq> x"
      by auto
    from Cons.IH [OF this] show ?thesis using Suc by simp
  qed
qed

lemma nameToPos_distinct: "distinct (map fst (nameToPos js))"
  unfolding nameToPos_def by (rule distinct_nameToPos_fold) simp

lemma nameToPos_keys: "fst ` set (nameToPos js) = set (js_name js)"
  unfolding nameToPos_def by (simp add: keys_nameToPos_fold)

lemma nameToPos_absent: "x \<notin> set (js_name js) \<Longrightarrow> map_of (nameToPos js) x = None"
  unfolding nameToPos_def by (simp add: map_of_nameToPos_fold fold_upd_absent)

lemma nameToPos_last:
  "i < length (js_name js) \<Longrightarrow> js_name js ! i = x \<Longrightarrow>
   (\<forall>j. i < j \<and> j < length (js_name js) \<longrightarrow> js_name js ! j \<noteq> x) \<Longrightarrow>
   map_of (nameToPos js) x = Some (positionOr0 (js_position js) i)"
  unfolding nameToPos_def using fold_upd_last [of i "js_name js" x "positionOr0 (js_position js)" 0]
  by (simp add: map_of_nameToPos_fold)

lemma setOne_maps:
  "jointsByName (setOne np m) = jointsByName m"
  "jointsByParentLink (setOne np m) = jointsByParentLink m"
  "linkParent (setOne np m) = linkParent m"
  "length (joints (setOne np m)) = length (joints m)"
  by (simp_all add: setOne_def split: option.splits)

lemma setOne_frame: "(joints (setOne np m) ! a)\<lparr>j_q := v\<rparr> = (joints m ! a)\<lparr>j_q := v\<rparr>"
proof (cases "map_of (jointsByName m) (fst np)")
  case None
  then show ?thesis by (simp add: setOne_def)
next
  case (Some a')
  show ?thesis
  proof (cases "a' < length (joints m)")
    case True
    then show ?thesis using Some by (simp add: setOne_def nth_list_update)
  next
    case False
    then show ?thesis using Some by (simp add: setOne_def list_update_beyond)
  qed
qed

lemma setOne_unknown: "map_of (jointsByName m) (fst np) = None \<Longrightarrow> setOne np m = m"
  by (simp add: setOne_def)

lemma setOne_name: "j_name (joints (setOne np m) ! a) = j_name (joints m ! a)"
  using arg_cong [OF setOne_frame [where v = 0], of j_name] by simp

lemma setOne_wf: "wfModel m \<Longrightarrow> wfModel (setOne np m)"
  unfolding wfModel_def setOne_maps setOne_name .

lemma snd_inj:
  "distinct (map snd xs) \<Longrightarrow> (k, a) \<in> set xs \<Longrightarrow> (n, a) \<in> set xs \<Longrightarrow> k = n"
  using inj_onD [of snd "set xs" "(k, a)" "(n, a)"] by (simp add: distinct_map)

lemma setOne_q_same:
  assumes "wfModel m" "(n, a) \<in> set (jointsByName m)"
  shows "j_q (joints (setOne (n, v) m) ! a) = v"
proof -
  from assms have "map_of (jointsByName m) n = Some a" "a < length (joints m)"
    by (auto simp: wfModel_def)
  then show ?thesis by (simp add: setOne_def)
qed

lemma setOne_q_other:
  assumes "wfModel m" "(n, a) \<in> set (jointsByName m)" "k \<noteq> n"
  shows "j_q (joints (setOne (k, v) m) ! a) = j_q (joints m ! a)"
proof (cases "map_of (jointsByName m) k")
  case None
  then show ?thesis by (simp add: setOne_def)
next
  case (Some a')
  then have "(k, a') \<in> set (jointsByName m)" by (rule map_of_SomeD)
  with assms have "a' \<noteq> a" by (auto simp: wfModel_def dest: snd_inj)
  then show ?thesis using Some by (simp add: setOne_def)
qed

lemma setOne_unlisted:
  assumes "a \<notin> snd ` set (jointsByName m)"
  shows "joints (setOne np m) ! a = joints m ! a"
proof (cases "map_of (jointsByName m) (fst np)")
  case None
  then show ?thesis by (simp add: setOne_def)
next
  case (Some a')
  then have "(fst np, a') \<in> set (jointsByName m)" by (rule map_of_SomeD)
  with assms have "a' \<noteq> a" by force
  then show ?thesis using Some by (simp add: setOne_def)
qed

lemma fold_setOne_maps:
  "jointsByName (fold setOne kvs m) = jointsByName m \<and>
   jointsByParentLink (fold setOne kvs m) = jointsByParentLink m \<and>
   linkParent (fold setOne kvs m) = linkParent m \<and>
   length (joints (fold setOne kvs m)) = length (joints m)"
  by (induction kvs arbitrary: m) (simp_all add: setOne_maps)

lemma fold_setOne_frame:
  "(joints (fold setOne kvs m) ! a)\<lparr>j_q := v\<rparr> = (joints m ! a)\<lparr>j_q := v\<rparr>"
  by (induction kvs arbitrary: m) (simp_all add: setOne_frame)

lemma fold_setOne_wf: "wfModel m \<Longrightarrow> wfModel (fold setOne kvs m)"
  by (induction kvs arbitrary: m) (simp_all add: setOne_wf)

lemma fold_setOne_unknown:
  "\<forall>k \<in> fst ` set kvs. map_of (jointsByName m) k = None \<Longrightarrow> fold setOne kvs m = m"
  by (induction kvs arbitrary: m) (simp_all add: setOne_unknown)

lemma fold_setOne_unlisted:
  "a \<notin> snd ` set (jointsByName m) \<Longrightarrow> joints (fold setOne kvs m) ! a = joints m ! a"
  by (induction kvs arbitrary: m) (simp_all add: setOne_unlisted setOne_maps)

lemma fold_setOne_q:
  assumes "wfModel m" "distinct (map fst kvs)" "(n, a) \<in> set (jointsByName m)"
  shows "j_q (joints (fold setOne kvs m) ! a)
           = (case map_of kvs n of None \<Rightarrow> j_q (joints m ! a) | Some v \<Rightarrow> v)"
  using assms
proof (induction kvs arbitrary: m)
  case Nil
  then show ?case by simp
next
  case (Cons kv kvs)
  obtain k v where kv: "kv = (k, v)" by (cases kv)
  have wf1: "wfModel (setOne kv m)" using Cons.prems(1) by (rule setOne_wf)
  have in1: "(n, a) \<in> set (jointsByName (setOne kv m))"
    using Cons.prems(3) by (simp add: setOne_maps)
  from Cons.prems(2) have d: "distinct (map fst kvs)" and knot: "k \<notin> fst ` set kvs"
    by (auto simp: kv)
  have IH: "j_q (joints (fold setOne kvs (setOne kv m)) ! a)
              = (case map_of kvs n of None \<Rightarrow> j_q (joints (setOne kv m) ! a) | Some v \<Rightarrow> v)"
    by (rule Cons.IH [OF wf1 d in1])
  show ?case
  proof (cases "k = n")
    case True
    with knot have "map_of kvs n = None" by (simp add: map_of_eq_None_iff)
    then show ?thesis
      using IH True setOne_q_same [OF Cons.prems(1) Cons.prems(3)] unfolding kv by simp
  next
    case False
    then show ?thesis
      using IH setOne_q_other [OF Cons.prems(1) Cons.prems(3) False] unfolding kv
      by (simp split: option.splits)
  qed
qed

text \<open>
  C4. On an engine that satisfies the invariant, \<open>setJointState\<close> changes nothing but
  the values \<open>q\<close> of joints: the three maps and the size of the store stay, and every
  joint keeps all its other fields. A joint that the name map does not reach is not
  touched. A joint of the name map whose name is not in \<open>name[]\<close> keeps its value. A
  joint of the name map whose name occurs in \<open>name[]\<close>, for the last time at index
  \<open>i\<close>, gets \<open>position[i]\<close>, or 0 when \<open>i\<close> is past the end of \<open>position[]\<close>. When no
  name of \<open>name[]\<close> is in the model, the engine is left as it was.
\<close>

theorem setJointState_effect:
  assumes "wfModel m"
  shows
  "jointsByName (setJointState js m) = jointsByName m \<and>
   jointsByParentLink (setJointState js m) = jointsByParentLink m \<and>
   linkParent (setJointState js m) = linkParent m \<and>
   length (joints (setJointState js m)) = length (joints m) \<and>
   (\<forall>a < length (joints m).
      (joints (setJointState js m) ! a)\<lparr>j_q := 0\<rparr> = (joints m ! a)\<lparr>j_q := 0\<rparr>) \<and>
   (\<forall>a < length (joints m). a \<notin> snd ` set (jointsByName m) \<longrightarrow>
      joints (setJointState js m) ! a = joints m ! a) \<and>
   (\<forall>na \<in> set (jointsByName m). fst na \<notin> set (js_name js) \<longrightarrow>
      j_q (joints (setJointState js m) ! snd na) = j_q (joints m ! snd na)) \<and>
   (\<forall>na \<in> set (jointsByName m). \<forall>i < length (js_name js).
      js_name js ! i = fst na \<and> (\<forall>k. i < k \<and> k < length (js_name js) \<longrightarrow> js_name js ! k \<noteq> fst na)
      \<longrightarrow> j_q (joints (setJointState js m) ! snd na)
            = (if i < length (js_position js) then js_position js ! i else 0)) \<and>
   ((\<forall>n \<in> set (js_name js). map_of (jointsByName m) n = None) \<longrightarrow> setJointState js m = m)"
proof -
  have q: "j_q (joints (setJointState js m) ! a)
             = (case map_of (nameToPos js) n of None \<Rightarrow> j_q (joints m ! a) | Some v \<Rightarrow> v)"
    if "(n, a) \<in> set (jointsByName m)" for n a
    unfolding setJointState_def
    by (rule fold_setOne_q [OF assms nameToPos_distinct that])
  have absent: "\<forall>na \<in> set (jointsByName m). fst na \<notin> set (js_name js) \<longrightarrow>
      j_q (joints (setJointState js m) ! snd na) = j_q (joints m ! snd na)"
  proof (intro ballI impI)
    fix na assume "na \<in> set (jointsByName m)" "fst na \<notin> set (js_name js)"
    then show "j_q (joints (setJointState js m) ! snd na) = j_q (joints m ! snd na)"
      using q [of "fst na" "snd na"] by (simp add: nameToPos_absent)
  qed
  have present: "\<forall>na \<in> set (jointsByName m). \<forall>i < length (js_name js).
      js_name js ! i = fst na \<and> (\<forall>k. i < k \<and> k < length (js_name js) \<longrightarrow> js_name js ! k \<noteq> fst na)
      \<longrightarrow> j_q (joints (setJointState js m) ! snd na)
            = (if i < length (js_position js) then js_position js ! i else 0)"
  proof (intro ballI allI impI)
    fix na i
    assume na: "na \<in> set (jointsByName m)" and i: "i < length (js_name js)"
      and l: "js_name js ! i = fst na \<and>
              (\<forall>k. i < k \<and> k < length (js_name js) \<longrightarrow> js_name js ! k \<noteq> fst na)"
    from l have "map_of (nameToPos js) (fst na) = Some (positionOr0 (js_position js) i)"
      using nameToPos_last [OF i, of "fst na"] by blast
    then show "j_q (joints (setJointState js m) ! snd na)
            = (if i < length (js_position js) then js_position js ! i else 0)"
      using q [of "fst na" "snd na"] na by (simp add: positionOr0_def)
  qed
  have unknown: "(\<forall>n \<in> set (js_name js). map_of (jointsByName m) n = None)
                   \<longrightarrow> setJointState js m = m"
  proof (intro impI)
    assume "\<forall>n \<in> set (js_name js). map_of (jointsByName m) n = None"
    then have "\<forall>k \<in> fst ` set (nameToPos js). map_of (jointsByName m) k = None"
      unfolding nameToPos_keys .
    then show "setJointState js m = m"
      unfolding setJointState_def by (rule fold_setOne_unknown)
  qed
  show ?thesis
    using absent present unknown
    by (simp add: setJointState_def fold_setOne_maps fold_setOne_frame fold_setOne_unlisted)
qed

lemma setJointState_maps:
  "jointsByName (setJointState js m) = jointsByName m"
  "length (joints (setJointState js m)) = length (joints m)"
  by (simp_all add: setJointState_def fold_setOne_maps)

lemma setJointState_frame:
  "(joints (setJointState js m) ! a)\<lparr>j_q := v\<rparr> = (joints m ! a)\<lparr>j_q := v\<rparr>"
  by (simp add: setJointState_def fold_setOne_frame)

lemma setJointState_wf: "wfModel m \<Longrightarrow> wfModel (setJointState js m)"
  by (simp add: setJointState_def fold_setOne_wf)

lemma updates_maps: "jointsByName (fold setJointState us m) = jointsByName m"
  by (induction us arbitrary: m) (simp_all add: setJointState_maps)

lemma updates_frame:
  "(joints (fold setJointState us m) ! a)\<lparr>j_q := v\<rparr> = (joints m ! a)\<lparr>j_q := v\<rparr>"
  by (induction us arbitrary: m) (simp_all add: setJointState_frame)

lemma updates_wf: "wfModel m \<Longrightarrow> wfModel (fold setJointState us m)"
  by (induction us arbitrary: m) (simp_all add: setJointState_wf)

lemma jointTransform_fixed:
  "j_type j = Fixed \<Longrightarrow> jointTransform opts (j\<lparr>j_q := v\<rparr>) = jointTransform opts j"
  by (simp add: jointTransform_def jointMotionTR_def)

lemma jointTransform_fixed_frame:
  assumes "j'\<lparr>j_q := 0\<rparr> = j\<lparr>j_q := 0\<rparr>" "j_type j = Fixed"
  shows "jointTransform opts j' = jointTransform opts j"
proof -
  have "j_type (j'\<lparr>j_q := 0\<rparr>) = j_type (j\<lparr>j_q := 0\<rparr>)"
    by (simp only: assms(1))
  then have "j_type j' = j_type j"
    by simp
  with assms(2) have "jointTransform opts j' = jointTransform opts (j'\<lparr>j_q := 0\<rparr>)"
    by (simp add: jointTransform_fixed)
  also have "\<dots> = jointTransform opts (j\<lparr>j_q := 0\<rparr>)"
    by (simp only: assms(1))
  also have "\<dots> = jointTransform opts j"
    using assms(2) by (rule jointTransform_fixed)
  finally show ?thesis .
qed

text \<open>
  C9. For a joint of type fixed at position \<open>i\<close> of the name map, the record that
  \<open>compute\<close> emits at position \<open>i\<close> is the same after any two sequences of
  \<open>setJointState\<close> calls on the same engine, whatever names and values they set: it
  is the record of the joint as it was before any of them.
\<close>

theorem fixed_joint_record_independent:
  assumes "i < length (jointsByName m)"
    and "j_type (joints m ! snd (jointsByName m ! i)) = Fixed"
  shows "transforms (fst (compute oo (fold setJointState us1 m))) ! i
           = transforms (fst (compute oo (fold setJointState us2 m))) ! i \<and>
         transforms (fst (compute oo (fold setJointState us1 m))) ! i
           = jointTransform (optionsOrDefault oo) (joints m ! snd (jointsByName m ! i))"
proof -
  have "transforms (fst (compute oo (fold setJointState us m))) ! i
          = jointTransform (optionsOrDefault oo) (joints m ! snd (jointsByName m ! i))" for us
  proof -
    have "transforms (fst (compute oo (fold setJointState us m))) ! i
            = jointTransform (optionsOrDefault oo)
                (joints (fold setJointState us m) ! snd (jointsByName m ! i))"
      using assms(1) by (simp add: compute_transforms updates_maps)
    also have "\<dots> = jointTransform (optionsOrDefault oo) (joints m ! snd (jointsByName m ! i))"
      using updates_frame assms(2) by (rule jointTransform_fixed_frame)
    finally show ?thesis .
  qed
  then show ?thesis by simp
qed


subsection \<open>The invariant of the engine\<close>

text \<open>Every engine satisfies \<open>wfModel\<close>: \<open>parseUrdf\<close> builds a model that does, and
  \<open>setJointState\<close> keeps it (\<open>setJointState_wf\<close> above), while \<open>compute\<close> returns the
  state as it is.\<close>

lemma addJoint_fields:
  "joints (addJoint aj m) = joints m"
  "jointsByName (addJoint aj m) = AList.update (j_name (snd aj)) (fst aj) (jointsByName m)"
  by (simp_all add: addJoint_def Let_def)

lemma update_values:
  "snd ` set (AList.update k v al) \<subseteq> insert v (snd ` set al)"
  by (induction al) auto

lemma update_entries:
  "set (AList.update k v al) \<subseteq> insert (k, v) (set al)"
  by (induction al) auto

lemma distinct_snd_update:
  "distinct (map snd al) \<Longrightarrow> v \<notin> snd ` set al \<Longrightarrow> distinct (map snd (AList.update k v al))"
proof (induction al)
  case Nil
  then show ?case by simp
next
  case (Cons p al)
  show ?case
  proof (cases "fst p = k")
    case True
    with Cons.prems show ?thesis by (auto simp: image_iff)
  next
    case False
    from Cons.prems have "distinct (map snd (AList.update k v al))"
      by (intro Cons.IH) auto
    moreover have "snd p \<notin> snd ` set (AList.update k v al)"
      using update_values [of k v al] Cons.prems by (auto simp: image_iff)
    ultimately show ?thesis using False by simp
  qed
qed

lemma fold_addJoint_inv:
  assumes "joints m = pre @ xs"
    and "distinct (map fst (jointsByName m))"
    and "distinct (map snd (jointsByName m))"
    and "\<forall>na \<in> set (jointsByName m). snd na < length pre \<and> j_name (joints m ! snd na) = fst na"
  shows "wfModel (fold addJoint (enumerate (length pre) xs) m)"
  using assms
proof (induction xs arbitrary: pre m)
  case Nil
  then show ?case by (auto simp: wfModel_def)
next
  case (Cons x xs)
  let ?m1 = "addJoint (length pre, x) m"
  have j1: "joints ?m1 = (pre @ [x]) @ xs"
    using Cons.prems(1) by (simp add: addJoint_fields)
  have n1: "jointsByName ?m1 = AList.update (j_name x) (length pre) (jointsByName m)"
    by (simp add: addJoint_fields)
  have d1: "distinct (map fst (jointsByName ?m1))"
    unfolding n1 using Cons.prems(2) by (rule distinct_update)
  have "length pre \<notin> snd ` set (jointsByName m)"
    using Cons.prems(4) by auto
  with Cons.prems(3) have d2: "distinct (map snd (jointsByName ?m1))"
    unfolding n1 by (rule distinct_snd_update)
  have e1: "\<forall>na \<in> set (jointsByName ?m1).
              snd na < length (pre @ [x]) \<and> j_name (joints ?m1 ! snd na) = fst na"
  proof
    fix na assume "na \<in> set (jointsByName ?m1)"
    then have "na = (j_name x, length pre) \<or> na \<in> set (jointsByName m)"
      unfolding n1 using update_entries [of "j_name x" "length pre" "jointsByName m"] by auto
    then show "snd na < length (pre @ [x]) \<and> j_name (joints ?m1 ! snd na) = fst na"
    proof
      assume "na = (j_name x, length pre)"
      then show ?thesis by (simp add: j1)
    next
      assume "na \<in> set (jointsByName m)"
      with Cons.prems(4) have "snd na < length pre" "j_name (joints m ! snd na) = fst na"
        by auto
      then show ?thesis by (simp add: addJoint_fields)
    qed
  qed
  have "wfModel (fold addJoint (enumerate (length (pre @ [x])) xs) ?m1)"
    by (rule Cons.IH [OF j1 d1 d2 e1])
  then show ?case by simp
qed

lemma buildModel_wf: "wfModel (buildModel js)"
  unfolding buildModel_def using fold_addJoint_inv [of _ "[]" js] by simp

lemma fold_addJoint_joints: "joints (fold addJoint ajs m) = joints m"
  by (induction ajs arbitrary: m) (simp_all add: addJoint_fields)

lemma buildModel_joints: "joints (buildModel js) = js"
  by (simp add: buildModel_def fold_addJoint_joints)

lemma parseUrdf_wf: "wfModel (parseUrdf Number xml)"
  by (simp add: parseUrdf_def buildModel_wf)

lemma fromXml_wf: "wfModel (fromXml Number opts)"
  by (simp add: fromXml_def parseUrdf_wf)

subsection \<open>The parser\<close>

lemma vec3Length_zero_iff: "vec3Length a = 0 \<longleftrightarrow> a = vec3 0 0 0"
proof -
  have "vx a * vx a + vy a * vy a + vz a * vz a = 0 \<longleftrightarrow> vx a = 0 \<and> vy a = 0 \<and> vz a = 0"
    by (simp add: add_nonneg_eq_0_iff)
  then show ?thesis
    by (cases a) (simp add: vec3Length_def vec3_def)
qed

lemma vec3Normalize_zero: "vec3Normalize (vec3 0 0 0) = vec3 0 0 0"
  by (simp add: vec3Normalize_def vec3_def vec3Length_def)

lemma vec3Normalize_unit:
  assumes "a \<noteq> vec3 0 0 0"
  shows "vec3Length (vec3Normalize a) = 1"
proof -
  define l where "l = vec3Length a"
  have l0: "l \<noteq> 0" unfolding l_def using assms by (simp add: vec3Length_zero_iff)
  have sq: "l * l = vx a * vx a + vy a * vy a + vz a * vz a"
    unfolding l_def vec3Length_def by simp
  have n: "vec3Normalize a = \<lparr>vx = vx a / l, vy = vy a / l, vz = vz a / l\<rparr>"
    using l0 by (simp add: vec3Normalize_def Let_def l_def)
  have "vx a / l * (vx a / l) + vy a / l * (vy a / l) + vz a / l * (vz a / l)
          = (vx a * vx a + vy a * vy a + vz a * vz a) / (l * l)"
    by (simp add: add_divide_distrib)
  also have "\<dots> = 1"
    using l0 by (simp add: sq [symmetric])
  finally show ?thesis
    by (simp add: n vec3Length_def)
qed

lemma parseJointBlock_axis:
  "parseJointBlock Number b = Some j \<Longrightarrow> j_axis j = vec3Normalize (axisOfBlock Number b)"
  by (auto simp: parseJointBlock_def Let_def split: option.splits if_splits)

lemma parseUrdf_joints:
  "joints (parseUrdf Number xml)
     = List.map_filter (parseJointBlock Number) (extractJointBlocks xml)"
  by (simp add: parseUrdf_def buildModel_joints)

lemma in_map_filter:
  "j \<in> set (List.map_filter f bs) \<Longrightarrow> \<exists>b \<in> set bs. f b = Some j"
  by (auto simp: map_filter_def)

text \<open>
  C5 (as amended). Every joint of a parsed model comes from a block of the
  description, and its axis is \<open>vec3Normalize\<close> of the axis read from that block:
  it has length 1, unless the axis read is the zero vector, in which case the
  substitution of 1 for the length leaves the axis at \<open>(0, 0, 0)\<close>.
\<close>

theorem axis_unit_unless_zero:
  "\<forall>j \<in> set (joints (parseUrdf Number xml)).
     \<exists>b \<in> set (extractJointBlocks xml).
       parseJointBlock Number b = Some j \<and>
       j_axis j = vec3Normalize (axisOfBlock Number b) \<and>
       (if axisOfBlock Number b = vec3 0 0 0 then j_axis j = vec3 0 0 0
        else vec3Length (j_axis j) = 1)"
proof
  fix j assume "j \<in> set (joints (parseUrdf Number xml))"
  then obtain b where b: "b \<in> set (extractJointBlocks xml)" "parseJointBlock Number b = Some j"
    unfolding parseUrdf_joints by (blast dest: in_map_filter)
  then have ax: "j_axis j = vec3Normalize (axisOfBlock Number b)"
    by (simp add: parseJointBlock_axis)
  have "if axisOfBlock Number b = vec3 0 0 0 then j_axis j = vec3 0 0 0
        else vec3Length (j_axis j) = 1"
    by (simp add: ax vec3Normalize_zero vec3Normalize_unit)
  with b ax show "\<exists>b \<in> set (extractJointBlocks xml).
       parseJointBlock Number b = Some j \<and>
       j_axis j = vec3Normalize (axisOfBlock Number b) \<and>
       (if axisOfBlock Number b = vec3 0 0 0 then j_axis j = vec3 0 0 0
        else vec3Length (j_axis j) = 1)"
    by blast
qed

lemma map_filter_drop:
  "f b = None \<Longrightarrow> List.map_filter f (bs1 @ b # bs2) = List.map_filter f (bs1 @ bs2)"
  by (simp add: map_filter_def)

lemma parseSingleTagAttr_missing:
  "regexExec (matchSelfClosingAt tag) b = None \<Longrightarrow> parseSingleTagAttr b tag attr = None"
  by (simp add: parseSingleTagAttr_def)

lemma parseJointBlock_no_link:
  "parseSingleTagAttr b ''parent'' ''link'' = None \<or> parseSingleTagAttr b ''child'' ''link'' = None
   \<Longrightarrow> parseJointBlock Number b = None"
  by (auto simp: parseJointBlock_def Let_def falsy_def split: option.splits)

text \<open>The search of \<open>regexExec\<close> fails exactly when the anchored pattern fails at
  every position, and the anchored pattern of a self-closing element succeeds exactly
  on the texts of that shape; so the search for a self-closing element fails exactly
  on the blocks that have none.\<close>

lemma regexExec_None_iff:
  "regexExec pat s = None \<longleftrightarrow> (\<forall>pre post. s = pre @ post \<longrightarrow> pat post = None)"
proof (induction s)
  case Nil
  then show ?case by simp
next
  case (Cons c cs)
  show ?case
  proof
    assume n: "regexExec pat (c # cs) = None"
    then have here: "pat (c # cs) = None" and rest: "regexExec pat cs = None"
      by (auto split: option.splits)
    show "\<forall>pre post. c # cs = pre @ post \<longrightarrow> pat post = None"
    proof (intro allI impI)
      fix pre post assume e: "c # cs = pre @ post"
      show "pat post = None"
      proof (cases pre)
        case Nil
        with e here show ?thesis by simp
      next
        case (Cons p pre')
        with e have "cs = pre' @ post" by simp
        with rest Cons.IH show ?thesis by blast
      qed
    qed
  next
    assume a: "\<forall>pre post. c # cs = pre @ post \<longrightarrow> pat post = None"
    then have "pat (c # cs) = None" by (metis append_Nil)
    moreover have "\<forall>pre post. cs = pre @ post \<longrightarrow> pat post = None"
      using a by (metis append_Cons)
    then have "regexExec pat cs = None" using Cons.IH by blast
    ultimately show "regexExec pat (c # cs) = None" by simp
  qed
qed

lemma takeWhile_stop:
  "length (takeWhile P xs) < length xs \<Longrightarrow>
   \<exists>post. xs = takeWhile P xs @ hd (dropWhile P xs) # post \<and> \<not> P (hd (dropWhile P xs))"
proof -
  assume "length (takeWhile P xs) < length xs"
  then have ne: "dropWhile P xs \<noteq> []"
    by (metis append_Nil2 less_irrefl takeWhile_dropWhile_id)
  then obtain y post where d: "dropWhile P xs = y # post" by (cases "dropWhile P xs") auto
  then have "\<not> P y" using hd_dropWhile [OF ne] by simp
  moreover have "xs = takeWhile P xs @ y # post"
    using takeWhile_dropWhile_id [of P xs] d by simp
  ultimately show ?thesis using d by auto
qed

lemma matchSelfClosingAt_Some_iff:
  "matchSelfClosingAt tag s = Some attrs \<longleftrightarrow>
     (\<exists>post. s = ''<'' @ tag @ attrs @ ''/>'' @ post \<and> CHR ''>'' \<notin> set attrs \<and>
        wordBoundary (''<'' @ tag) (attrs @ ''/>'' @ post))"
proof
  assume m: "matchSelfClosingAt tag s = Some attrs"
  define rest where "rest = drop (length (''<'' @ tag)) s"
  define body where "body = takeWhile (\<lambda>c. c \<noteq> CHR ''>'') rest"
  from m have p: "prefix (''<'' @ tag) s"
    by (simp add: matchSelfClosingAt_def split: if_splits)
  then have s: "s = ''<'' @ tag @ rest"
    unfolding rest_def by (auto simp: prefix_def)
  from m p have c: "wordBoundary (''<'' @ tag) rest" "length body < length rest"
    "body \<noteq> []" "last body = CHR ''/''" "attrs = butlast body"
    unfolding rest_def body_def by (auto simp: matchSelfClosingAt_def Let_def split: if_splits)
  from takeWhile_stop [OF c(2) [unfolded body_def]]
  obtain post where r: "rest = body @ CHR ''>'' # post"
    unfolding body_def by auto
  from c(3,4,5) have b: "body = attrs @ ''/''"
    using append_butlast_last_id [of body] by simp
  have "CHR ''>'' \<notin> set body"
    unfolding body_def by (auto dest: set_takeWhileD)
  then have "CHR ''>'' \<notin> set attrs" by (simp add: b)
  moreover have "s = ''<'' @ tag @ attrs @ ''/>'' @ post"
    using s r b by simp
  moreover have "wordBoundary (''<'' @ tag) (attrs @ ''/>'' @ post)"
    using c(1) r b by simp
  ultimately show "\<exists>post. s = ''<'' @ tag @ attrs @ ''/>'' @ post \<and> CHR ''>'' \<notin> set attrs \<and>
        wordBoundary (''<'' @ tag) (attrs @ ''/>'' @ post)"
    by blast
next
  assume "\<exists>post. s = ''<'' @ tag @ attrs @ ''/>'' @ post \<and> CHR ''>'' \<notin> set attrs \<and>
        wordBoundary (''<'' @ tag) (attrs @ ''/>'' @ post)"
  then obtain post where s: "s = ''<'' @ tag @ attrs @ ''/>'' @ post"
    and a: "CHR ''>'' \<notin> set attrs"
    and w: "wordBoundary (''<'' @ tag) (attrs @ ''/>'' @ post)"
    by blast
  have p: "prefix (''<'' @ tag) s"
    by (simp add: s)
  have rest: "drop (length (''<'' @ tag)) s = attrs @ ''/>'' @ post"
    by (simp add: s)
  have "takeWhile (\<lambda>c. c \<noteq> CHR ''>'') ((attrs @ ''/'') @ CHR ''>'' # post) = attrs @ ''/''"
    using a by (intro takeWhile_append2 [THEN trans]) auto
  then have body: "takeWhile (\<lambda>c. c \<noteq> CHR ''>'') (attrs @ ''/>'' @ post) = attrs @ ''/''"
    by simp
  show "matchSelfClosingAt tag s = Some attrs"
    unfolding matchSelfClosingAt_def Let_def rest body using p w by simp
qed

lemma regexExec_selfClosing_None_iff:
  "regexExec (matchSelfClosingAt tag) block = None \<longleftrightarrow> \<not> hasSelfClosing tag block"
proof -
  have "hasSelfClosing tag block \<longleftrightarrow>
          (\<exists>pre post attrs. block = pre @ post \<and> matchSelfClosingAt tag post = Some attrs)"
    unfolding hasSelfClosing_def matchSelfClosingAt_Some_iff by (simp; blast)
  then show ?thesis
    unfolding regexExec_None_iff by (metis not_Some_eq)
qed

text \<open>
  C6. A joint block without a self-closing \<open>parent\<close> element, or without a
  self-closing \<open>child\<close> element, parses to no joint; the parser, a total function,
  returns the model built from the other blocks alone, whose store holds, in order,
  the joint of every other block that parses.
\<close>

theorem block_without_link_dropped:
  assumes "extractJointBlocks xml = bs1 @ b # bs2"
    and "\<not> hasSelfClosing ''parent'' b \<or> \<not> hasSelfClosing ''child'' b"
  shows "parseJointBlock Number b = None \<and>
         parseUrdf Number xml
           = buildModel (List.map_filter (parseJointBlock Number) (bs1 @ bs2)) \<and>
         joints (parseUrdf Number xml)
           = map (the \<circ> parseJointBlock Number)
               (filter (\<lambda>b'. parseJointBlock Number b' \<noteq> None) (bs1 @ bs2))"
proof -
  from assms(2) have "regexExec (matchSelfClosingAt ''parent'') b = None \<or>
                      regexExec (matchSelfClosingAt ''child'') b = None"
    by (simp add: regexExec_selfClosing_None_iff)
  then have n: "parseJointBlock Number b = None"
    by (auto intro!: parseJointBlock_no_link simp: parseSingleTagAttr_missing)
  then have "parseUrdf Number xml
      = buildModel (List.map_filter (parseJointBlock Number) (bs1 @ bs2))"
    by (simp add: parseUrdf_def assms(1) map_filter_drop)
  with n show ?thesis
    by (simp add: buildModel_joints map_filter_def)
qed

text \<open>Every block that \<open>extractJointBlocks\<close> returns starts with the opening tag of a
  joint, and the search for the opening tag finds the text of that tag.\<close>

lemma indexOf_Some: "indexOf needle r = Some k \<Longrightarrow> prefix needle (drop k r)"
proof (induction r arbitrary: k)
  case Nil
  then show ?case by (simp split: if_splits)
next
  case (Cons c cs)
  show ?case
  proof (cases "prefix needle (c # cs)")
    case True
    with Cons.prems show ?thesis by simp
  next
    case False
    with Cons.prems obtain k' where "indexOf needle cs = Some k'" "k = Suc k'"
      by auto
    with Cons.IH show ?thesis by simp
  qed
qed

lemma extracted_block_matched:
  "b \<in> set (extractJointBlocks s) \<Longrightarrow> \<exists>s'. matchJointBlockAt s' = Some b"
proof (induction s rule: extractJointBlocks.induct)
  case (1 s)
  show ?case
  proof (cases "matchJointBlockAt s")
    case None
    show ?thesis
    proof (cases s)
      case Nil
      with None "1.prems" show ?thesis by (simp add: extractJointBlocks.simps)
    next
      case (Cons c cs)
      with None "1.prems" have "b \<in> set (extractJointBlocks cs)"
        by (simp add: extractJointBlocks.simps)
      with "1.IH"(1) [OF None Cons] show ?thesis .
    qed
  next
    case (Some b')
    with "1.prems" have "b = b' \<or> b \<in> set (extractJointBlocks (drop (length b') s))"
      by (simp add: extractJointBlocks.simps)
    then show ?thesis
    proof
      assume "b = b'"
      with Some show ?thesis by blast
    next
      assume "b \<in> set (extractJointBlocks (drop (length b') s))"
      with "1.IH"(2) [OF Some] show ?thesis .
    qed
  qed
qed

lemma take_two_parts: "length A = k \<Longrightarrow> length B = n \<Longrightarrow> take (k + n) (A @ B @ C) = A @ B"
  by simp

lemma wordBoundary_same_head:
  "rest \<noteq> [] \<Longrightarrow> rest' \<noteq> [] \<Longrightarrow> hd rest = hd rest' \<Longrightarrow>
   wordBoundary t rest = wordBoundary t rest'"
  by (simp add: wordBoundary_def)

lemma takeWhile_shorter:
  assumes "x \<in> set xs" "\<not> P x"
  shows "length (takeWhile P xs) < length xs"
proof (rule ccontr)
  assume "\<not> length (takeWhile P xs) < length xs"
  with length_takeWhile_le [of P xs] have "length (takeWhile P xs) = length xs"
    by simp
  moreover have "length (takeWhile P xs @ dropWhile P xs) = length xs"
    by (simp only: takeWhile_dropWhile_id)
  ultimately have "dropWhile P xs = []"
    by (simp only: length_append) simp
  then have "\<forall>y \<in> set xs. P y"
    by (simp add: dropWhile_eq_Nil_conv)
  with assms show False by blast
qed

lemma matched_block_shape:
  assumes "matchJointBlockAt s = Some b"
  shows "\<exists>mid. b = ''<joint'' @ mid @ ''</joint>'' \<and> wordBoundary ''<joint'' (mid @ ''</joint>'')"
proof -
  from assms have p: "prefix ''<joint'' s" and w: "wordBoundary ''<joint'' (drop 6 s)"
    by (simp_all add: matchJointBlockAt_def split: if_splits)
  from assms p w obtain k where k: "indexOf ''</joint>'' (drop 6 s) = Some k"
    and b: "b = take (6 + k + 8) s"
    by (auto simp: matchJointBlockAt_def split: option.splits)
  from p obtain r where s: "s = ''<joint'' @ r" by (auto simp: prefix_def)
  then have r: "drop 6 s = r" by simp
  from indexOf_Some [OF k] obtain post where d: "drop k r = ''</joint>'' @ post"
    unfolding r by (auto simp: prefix_def)
  define A where "A = take k r"
  have rr: "r = A @ ''</joint>'' @ post"
    unfolding A_def using append_take_drop_id [of k r] d by simp
  from d have "drop k r \<noteq> []" by simp
  then have la: "length A = k" unfolding A_def by simp
  have "take (k + 8) (A @ ''</joint>'' @ post) = A @ ''</joint>''"
    using la by (rule take_two_parts) simp
  then have t8: "take (k + 8) r = A @ ''</joint>''"
    unfolding rr .
  have "take (6 + k + 8) (''<joint'' @ r)
          = take (6 + k + 8) ''<joint'' @ take (6 + k + 8 - length ''<joint'') r"
    by (rule take_append)
  also have "\<dots> = ''<joint'' @ take (k + 8) r"
    by (simp add: add.commute)
  finally have bb: "b = ''<joint'' @ A @ ''</joint>''"
    unfolding b s t8 .
  have "hd (A @ ''</joint>'' @ post) = hd (A @ ''</joint>'')"
    by (cases A) simp_all
  then have "wordBoundary ''<joint'' (A @ ''</joint>'' @ post)
               = wordBoundary ''<joint'' (A @ ''</joint>'')"
    by (intro wordBoundary_same_head) simp_all
  with w have "wordBoundary ''<joint'' (A @ ''</joint>'')"
    unfolding r rr by simp
  with bb show ?thesis by blast
qed

lemma extracted_block_open_tag:
  assumes "b \<in> set (extractJointBlocks xml)"
  shows "\<exists>openTag post. b = ''<joint'' @ openTag @ ''>'' @ post \<and> CHR ''>'' \<notin> set openTag \<and>
           regexExec (matchOpenTagAt ''joint'') b = Some openTag"
proof -
  from extracted_block_matched [OF assms] obtain s where "matchJointBlockAt s = Some b" ..
  from matched_block_shape [OF this] obtain mid where
    b: "b = ''<joint'' @ mid @ ''</joint>''" and w: "wordBoundary ''<joint'' (mid @ ''</joint>'')"
    by blast
  define rest where "rest = mid @ ''</joint>''"
  define body where "body = takeWhile (\<lambda>c. c \<noteq> CHR ''>'') rest"
  have "CHR ''>'' \<in> set rest" by (simp add: rest_def)
  then have lt: "length body < length rest"
    unfolding body_def by (rule takeWhile_shorter) simp
  from takeWhile_stop [OF lt [unfolded body_def]]
  obtain post where r: "rest = body @ CHR ''>'' # post"
    unfolding body_def by auto
  have nb: "CHR ''>'' \<notin> set body"
    unfolding body_def by (auto dest: set_takeWhileD)
  have dr: "drop (length (''<'' @ ''joint'')) b = rest"
    by (simp add: b rest_def)
  have m: "matchOpenTagAt ''joint'' b = Some body"
    unfolding matchOpenTagAt_def Let_def dr body_def [symmetric]
    using w lt by (simp add: b rest_def)
  have "b = ''<joint'' @ body @ ''>'' @ post"
    using b r by (simp add: rest_def)
  moreover have "regexExec (matchOpenTagAt ''joint'') b = Some body"
    using m by (simp add: b)
  ultimately show ?thesis using nb by blast
qed

lemma parseJointBlock_no_name:
  assumes "regexExec (matchOpenTagAt ''joint'') b = Some openTag"
    and "parseAttrs openTag ''name'' = None \<or>
         (\<exists>v. parseAttrs openTag ''name'' = Some v \<and> trim v = [])"
  shows "parseJointBlock Number b = None"
proof -
  have "trim (case parseAttrs openTag ''name'' of None \<Rightarrow> [] | Some v \<Rightarrow> v) = []"
    using assms(2) by (auto simp: trim_def)
  then show ?thesis
    by (simp add: parseJointBlock_def Let_def assms(1))
qed

text \<open>
  C10. A joint block whose opening tag has no \<open>name\<close> attribute, or a \<open>name\<close>
  attribute that is empty once trimmed, parses to no joint, whatever its \<open>parent\<close>
  and \<open>child\<close> elements are; the parser returns the model built from the other
  blocks alone.
\<close>

theorem block_without_name_dropped:
  assumes "extractJointBlocks xml = bs1 @ b # bs2"
    and "regexExec (matchOpenTagAt ''joint'') b = Some openTag"
    and "parseAttrs openTag ''name'' = None \<or>
         (\<exists>v. parseAttrs openTag ''name'' = Some v \<and> trim v = [])"
  shows "parseJointBlock Number b = None \<and>
         parseUrdf Number xml
           = buildModel (List.map_filter (parseJointBlock Number) (bs1 @ bs2))"
proof -
  have n: "parseJointBlock Number b = None"
    using assms(2,3) by (rule parseJointBlock_no_name)
  then show ?thesis
    by (simp add: parseUrdf_def assms(1) map_filter_drop)
qed

section \<open>Concrete runs\<close>

text \<open>The parser on the concrete descriptions. The blocks are found by evaluation
  of the string functions; a block is parsed by unfolding the parser.\<close>

lemmas parser_eval = parseJointBlock_def matchOpenTagAt_def matchSelfClosingAt_def matchAttrAt_def
  wordBoundary_def isWordChar_def isSpaceChar_def trim_def parseAttrs_def parseSingleTagAttr_def
  parseFirstSelfOrOpenTag_def attrOf_def falsy_def attrMatches.simps splitWs.simps
  NumberDecimal_def unsignedDecimal_def isDigit_def digitsValue_def numAt_def
  parseXyz_def parseXyzVec_def parseRpy_def quatFromRPY_def quatIdentity_def vec3_def
  vec3Normalize_def vec3Length_def jointTypeOf_def axisOfBlock_def Let_def

lemma mini_blocks: "extractJointBlocks miniUrdf = [miniBlock1, miniBlock2]"
  by code_simp

lemma mini_joint1: "parseJointBlock NumberDecimal miniBlock1 = Some miniJoint1"
  by (simp add: miniBlock1_def miniJoint1_def parser_eval)

lemma mini_joint2: "parseJointBlock NumberDecimal miniBlock2 = Some miniJoint2"
  by (simp add: miniBlock2_def miniJoint2_def parser_eval)

lemma mini_model:
  "parseUrdf NumberDecimal miniUrdf =
     \<lparr>joints = [miniJoint1, miniJoint2],
      jointsByName = [(''joint1'', 0), (''joint2'', 1)],
      jointsByParentLink = [(''base_link'', [0]), (''link1'', [1])],
      linkParent = [(''link1'', ''base_link''), (''link2'', ''link1'')]\<rparr>"
  by (simp add: parseUrdf_def mini_blocks mini_joint1 mini_joint2 buildModel_def addJoint_def
      Let_def miniJoint1_def miniJoint2_def)

lemma mini_set:
  "setJointState miniUpdate (parseUrdf NumberDecimal miniUrdf) =
     \<lparr>joints = [miniJoint1\<lparr>j_q := 0\<rparr>, miniJoint2\<lparr>j_q := 1 / 2\<rparr>],
      jointsByName = [(''joint1'', 0), (''joint2'', 1)],
      jointsByParentLink = [(''base_link'', [0]), (''link1'', [1])],
      linkParent = [(''link1'', ''base_link''), (''link2'', ''link1'')]\<rparr>"
  by (simp add: mini_model setJointState_def nameToPos_def miniUpdate_def positionOr0_def
      setOne_def)

text \<open>The scenario of the repository's test: \<open>joint1\<close> at a quarter turn about
  \<open>z\<close>, \<open>joint2\<close> at \<open>0.5\<close> along \<open>x\<close>.\<close>

lemma test_set:
  "setJointState testUpdate (parseUrdf NumberDecimal miniUrdf) =
     \<lparr>joints = [miniJoint1\<lparr>j_q := pi / 2\<rparr>, miniJoint2\<lparr>j_q := 1 / 2\<rparr>],
      jointsByName = [(''joint1'', 0), (''joint2'', 1)],
      jointsByParentLink = [(''base_link'', [0]), (''link1'', [1])],
      linkParent = [(''link1'', ''base_link''), (''link2'', ''link1'')]\<rparr>"
  by (simp add: mini_model setJointState_def nameToPos_def testUpdate_def positionOr0_def
      setOne_def)

lemma repository_test:
  "map (\<lambda>r. (frame_id (header r), child_frame_id r, transform r))
     (transforms (fst (compute None (setJointState testUpdate (parseUrdf NumberDecimal miniUrdf)))))
   = [(''base_link'', ''link1'',
        \<lparr>translation = \<lparr>vx = 1, vy = 0, vz = 0\<rparr>,
         rotation = \<lparr>qx = 0, qy = 0, qz = sqrt 2 / 2, qw = sqrt 2 / 2\<rparr>\<rparr>),
      (''link1'', ''link2'',
        \<lparr>translation = \<lparr>vx = 1 / 2, vy = 1, vz = 0\<rparr>,
         rotation = \<lparr>qx = 0, qy = 0, qz = 0, qw = 1\<rparr>\<rparr>)]"
  by (simp add: compute_transforms test_set jointTransform_def miniJoint1_def miniJoint2_def
      composeTR_def jointMotionTR_def quatMultiply_def quatFromAxisAngle_def quatIdentity_def
      vec3Normalize_def vec3Length_def vec3Scale_def vec3RotateByQuat_def vec3Add_def vec3_def
      Let_def sin_45 cos_45)

text \<open>A description with two joints of the same name: the name map reaches the
  second joint only, the parent-link map lists both.\<close>

lemma dup_blocks: "extractJointBlocks dupUrdf = [dupBlock1, dupBlock2]"
  by code_simp

lemma dup_joint1: "parseJointBlock NumberDecimal dupBlock1 = Some dupJoint1"
  by (simp add: dupBlock1_def dupJoint1_def parser_eval)

lemma dup_joint2: "parseJointBlock NumberDecimal dupBlock2 = Some dupJoint2"
  by (simp add: dupBlock2_def dupJoint2_def parser_eval)

lemma dup_model:
  "parseUrdf NumberDecimal dupUrdf =
     \<lparr>joints = [dupJoint1, dupJoint2],
      jointsByName = [(''d'', 1)],
      jointsByParentLink = [(''p'', [0, 1])],
      linkParent = [(''c'', ''p''), (''e'', ''p'')]\<rparr>"
  by (simp add: parseUrdf_def dup_blocks dup_joint1 dup_joint2 buildModel_def addJoint_def
      Let_def dupJoint1_def dupJoint2_def)

text \<open>C4 on the parsed test description: of the names \<open>joint2, ghost, joint2, joint1\<close>
  with positions \<open>1, 2, 0.5\<close>, \<open>joint2\<close> takes the position of its last occurrence,
  \<open>joint1\<close>, whose index is past the end of the positions, takes 0, and \<open>ghost\<close> is
  ignored; an update that names \<open>ghost\<close> alone changes no value and, on the parsed
  engine, nothing at all. On the description with two joints named \<open>d\<close>, an update
  of \<open>d\<close> writes the joint of the name map and leaves the shadowed one as it was.\<close>

theorem setJointState_effect_witness:
  "wfModel (parseUrdf NumberDecimal miniUrdf) \<and>
   jointsByName (parseUrdf NumberDecimal miniUrdf) = [(''joint1'', 0), (''joint2'', 1)] \<and>
   j_q (joints (setJointState miniUpdate (parseUrdf NumberDecimal miniUrdf)) ! 0) = 0 \<and>
   j_q (joints (setJointState miniUpdate (parseUrdf NumberDecimal miniUrdf)) ! 1) = 1 / 2 \<and>
   j_q (joints (setJointState ghostUpdate
                  (setJointState miniUpdate (parseUrdf NumberDecimal miniUrdf))) ! 1) = 1 / 2 \<and>
   setJointState ghostUpdate (parseUrdf NumberDecimal miniUrdf)
     = parseUrdf NumberDecimal miniUrdf \<and>
   wfModel (parseUrdf NumberDecimal dupUrdf) \<and>
   jointsByName (parseUrdf NumberDecimal dupUrdf) = [(''d'', 1)] \<and>
   joints (setJointState dupUpdate (parseUrdf NumberDecimal dupUrdf)) ! 0 = dupJoint1 \<and>
   j_q (joints (setJointState dupUpdate (parseUrdf NumberDecimal dupUrdf)) ! 1) = 9"
proof -
  let ?m = "parseUrdf NumberDecimal miniUrdf"
  let ?m1 = "setJointState miniUpdate ?m"
  let ?d = "parseUrdf NumberDecimal dupUrdf"
  have wf: "wfModel ?m"
    by (rule parseUrdf_wf)
  have names: "jointsByName ?m = [(''joint1'', 0), (''joint2'', 1)]"
    by (simp add: mini_model)
  \<comment> \<open>the last occurrence of a name, and an index past the end of the positions\<close>
  note eff = setJointState_effect [OF wf, of miniUpdate]
  from eff have last:
    "\<forall>na \<in> set (jointsByName ?m). \<forall>i < length (js_name miniUpdate).
      js_name miniUpdate ! i = fst na \<and>
      (\<forall>k. i < k \<and> k < length (js_name miniUpdate) \<longrightarrow> js_name miniUpdate ! k \<noteq> fst na)
      \<longrightarrow> j_q (joints ?m1 ! snd na)
            = (if i < length (js_position miniUpdate) then js_position miniUpdate ! i else 0)"
    by (elim conjE)
  have l1: "\<forall>k. 3 < k \<and> k < length (js_name miniUpdate) \<longrightarrow> js_name miniUpdate ! k \<noteq> ''joint1''"
    by (simp add: miniUpdate_def)
  have l2: "\<forall>k. 2 < k \<and> k < length (js_name miniUpdate) \<longrightarrow> js_name miniUpdate ! k \<noteq> ''joint2''"
    by (auto simp: miniUpdate_def nth_Cons split: nat.splits)
  have q1: "j_q (joints ?m1 ! 0) = 0"
    using last [rule_format, of "(''joint1'', 0)" 3] l1 by (simp add: names miniUpdate_def)
  have q2: "j_q (joints ?m1 ! 1) = 1 / 2"
    using last [rule_format, of "(''joint2'', 1)" 2] l2 by (simp add: names miniUpdate_def)
  \<comment> \<open>a joint whose name is not in the update keeps its value\<close>
  have wf1: "wfModel ?m1"
    using wf by (rule setJointState_wf)
  have names1: "jointsByName ?m1 = [(''joint1'', 0), (''joint2'', 1)]"
    using eff names by simp
  from setJointState_effect [OF wf1, of ghostUpdate] have keep:
    "\<forall>na \<in> set (jointsByName ?m1). fst na \<notin> set (js_name ghostUpdate) \<longrightarrow>
      j_q (joints (setJointState ghostUpdate ?m1) ! snd na) = j_q (joints ?m1 ! snd na)"
    by (elim conjE)
  have q3: "j_q (joints (setJointState ghostUpdate ?m1) ! 1) = 1 / 2"
    using keep [rule_format, of "(''joint2'', 1)"] q2 by (simp add: names1 ghostUpdate_def)
  \<comment> \<open>an update of unknown names only leaves the engine as it was\<close>
  from setJointState_effect [OF wf, of ghostUpdate] have
    "(\<forall>n \<in> set (js_name ghostUpdate). map_of (jointsByName ?m) n = None)
       \<longrightarrow> setJointState ghostUpdate ?m = ?m"
    by (elim conjE)
  then have same: "setJointState ghostUpdate ?m = ?m"
    by (simp add: names ghostUpdate_def)
  \<comment> \<open>a joint shadowed by a later joint of the same name is not reached\<close>
  have wfd: "wfModel ?d"
    by (rule parseUrdf_wf)
  have namesd: "jointsByName ?d = [(''d'', 1)]" and stored: "joints ?d = [dupJoint1, dupJoint2]"
    by (simp_all add: dup_model)
  note effd = setJointState_effect [OF wfd, of dupUpdate]
  from effd have "\<forall>a < length (joints ?d). a \<notin> snd ` set (jointsByName ?d) \<longrightarrow>
      joints (setJointState dupUpdate ?d) ! a = joints ?d ! a"
    by (elim conjE)
  from this [rule_format, of 0] have d0: "joints (setJointState dupUpdate ?d) ! 0 = dupJoint1"
    by (simp add: namesd stored)
  from effd have "\<forall>na \<in> set (jointsByName ?d). \<forall>i < length (js_name dupUpdate).
      js_name dupUpdate ! i = fst na \<and>
      (\<forall>k. i < k \<and> k < length (js_name dupUpdate) \<longrightarrow> js_name dupUpdate ! k \<noteq> fst na)
      \<longrightarrow> j_q (joints (setJointState dupUpdate ?d) ! snd na)
            = (if i < length (js_position dupUpdate) then js_position dupUpdate ! i else 0)"
    by (elim conjE)
  moreover have "\<forall>k. 0 < k \<and> k < length (js_name dupUpdate) \<longrightarrow> js_name dupUpdate ! k \<noteq> ''d''"
    by (auto simp: dupUpdate_def)
  ultimately have d1: "j_q (joints (setJointState dupUpdate ?d) ! 1) = 9"
    by (auto simp: namesd dupUpdate_def)
  from wf names q1 q2 q3 same wfd namesd d0 d1 show ?thesis
    by simp
qed

text \<open>C1 on the engine that this update leaves: the record of \<open>joint2\<close> with a
  publish time, its stamp without one, and the split of that publish time.\<close>

theorem compute_records_witness:
  "length (transforms (fst (compute (Some \<lparr>publishTimeNs = Some 1720000000123456789\<rparr>)
      (setJointState miniUpdate (parseUrdf NumberDecimal miniUrdf))))) = 2 \<and>
   transforms (fst (compute (Some \<lparr>publishTimeNs = Some 1720000000123456789\<rparr>)
      (setJointState miniUpdate (parseUrdf NumberDecimal miniUrdf)))) ! 1
     = \<lparr>header = \<lparr>stamp = \<lparr>sec = 1720000000, nanosec = 123456789\<rparr>, frame_id = ''link1''\<rparr>,
        child_frame_id = ''link2'',
        transform = \<lparr>translation = \<lparr>vx = 1 / 2, vy = 1, vz = 0\<rparr>,
                     rotation = \<lparr>qx = 0, qy = 0, qz = 0, qw = 1\<rparr>\<rparr>\<rparr> \<and>
   stamp (header (transforms (fst (compute None
      (setJointState miniUpdate (parseUrdf NumberDecimal miniUrdf)))) ! 1))
     = \<lparr>sec = 0, nanosec = 0\<rparr> \<and>
   (1720000000123456789 :: real) \<in> \<int> \<and>
   Math_trunc (1720000000123456789 / 1000000000) * 1000000000
     + Math_trunc (1720000000123456789
         - 1000000000 * Math_trunc (1720000000123456789 / 1000000000))
     = 1720000000123456789"
proof -
  let ?oo = "Some \<lparr>publishTimeNs = Some 1720000000123456789\<rparr>"
  let ?m = "setJointState miniUpdate (parseUrdf NumberDecimal miniUrdf)"
  let ?r = "transforms (fst (compute ?oo ?m)) ! 1"
  note rec = compute_records [of ?oo ?m]
  have names: "jointsByName ?m = [(''joint1'', 0), (''joint2'', 1)]"
    and store: "joints ?m = [miniJoint1\<lparr>j_q := 0\<rparr>, miniJoint2\<lparr>j_q := 1 / 2\<rparr>]"
    by (simp_all add: mini_set)
  from rec have len: "length (transforms (fst (compute ?oo ?m))) = 2"
    by (simp add: names)
  from rec have
    "frame_id (header ?r) = j_parent (joints ?m ! snd (jointsByName ?m ! 1)) \<and>
     child_frame_id ?r = j_child (joints ?m ! snd (jointsByName ?m ! 1)) \<and>
     translation (transform ?r)
        = tr_t (composeTR (j_origin (joints ?m ! snd (jointsByName ?m ! 1)))
                  (jointMotionTR (joints ?m ! snd (jointsByName ?m ! 1)))) \<and>
     rotation (transform ?r)
        = tr_r (composeTR (j_origin (joints ?m ! snd (jointsByName ?m ! 1)))
                  (jointMotionTR (joints ?m ! snd (jointsByName ?m ! 1)))) \<and>
     stamp (header ?r)
        = (case publishTimeNs (optionsOrDefault ?oo) of
             None \<Rightarrow> \<lparr>sec = 0, nanosec = 0\<rparr>
           | Some ns \<Rightarrow>
               \<lparr>sec = Math_trunc (ns / 1000000000),
                nanosec = Math_trunc (ns - 1000000000 * Math_trunc (ns / 1000000000))\<rparr>)"
    using names by (elim conjE allE [of _ 1]) simp
  then have
    "frame_id (header ?r) = ''link1'' \<and> child_frame_id ?r = ''link2'' \<and>
     translation (transform ?r) = \<lparr>vx = 1 / 2, vy = 1, vz = 0\<rparr> \<and>
     rotation (transform ?r) = \<lparr>qx = 0, qy = 0, qz = 0, qw = 1\<rparr> \<and>
     stamp (header ?r) = \<lparr>sec = 1720000000, nanosec = 123456789\<rparr>"
    by (simp add: names store miniJoint2_def composeTR_def jointMotionTR_def quatMultiply_def
        quatIdentity_def vec3Scale_def vec3RotateByQuat_def vec3Add_def
        optionsOrDefault_def Math_trunc_def Let_def)
  then have r: "?r = \<lparr>header = \<lparr>stamp = \<lparr>sec = 1720000000, nanosec = 123456789\<rparr>, frame_id = ''link1''\<rparr>,
        child_frame_id = ''link2'',
        transform = \<lparr>translation = \<lparr>vx = 1 / 2, vy = 1, vz = 0\<rparr>,
                     rotation = \<lparr>qx = 0, qy = 0, qz = 0, qw = 1\<rparr>\<rparr>\<rparr>"
    by (cases ?r, cases "header ?r", cases "transform ?r") simp
  \<comment> \<open>without a publish time\<close>
  from compute_records [of None ?m] have
    "\<forall>i < length (jointsByName ?m).
       stamp (header (transforms (fst (compute None ?m)) ! i))
        = (case publishTimeNs (optionsOrDefault None) of
             None \<Rightarrow> \<lparr>sec = 0, nanosec = 0\<rparr>
           | Some ns \<Rightarrow>
               \<lparr>sec = Math_trunc (ns / 1000000000),
                nanosec = Math_trunc (ns - 1000000000 * Math_trunc (ns / 1000000000))\<rparr>)"
    by blast
  from this [rule_format, of 1] have z:
    "stamp (header (transforms (fst (compute None ?m)) ! 1)) = \<lparr>sec = 0, nanosec = 0\<rparr>"
    by (simp add: names optionsOrDefault_def)
  \<comment> \<open>a whole number of nanoseconds is split\<close>
  have int: "(1720000000123456789 :: real) \<in> \<int>"
    by simp
  from rec have "\<forall>ns \<in> \<int>.
      Math_trunc (ns / 1000000000) * 1000000000
        + Math_trunc (ns - 1000000000 * Math_trunc (ns / 1000000000)) = ns \<and>
      \<bar>Math_trunc (ns - 1000000000 * Math_trunc (ns / 1000000000))\<bar> < 1000000000"
    by (elim conjE)
  from this [rule_format, OF int] have split:
    "Math_trunc (1720000000123456789 / 1000000000) * 1000000000
     + Math_trunc (1720000000123456789
         - 1000000000 * Math_trunc (1720000000123456789 / 1000000000))
     = (1720000000123456789 :: real)"
    by (elim conjE)
  from len r z int split show ?thesis
    by (simp only: simp_thms)
qed

lemma partial_blocks: "extractJointBlocks partialUrdf = [] @ partialBlockA # [partialBlockB]"
  by code_simp

lemma partial_no_parent: "regexExec (matchSelfClosingAt ''parent'') partialBlockA = None"
  by code_simp

lemma partial_jointB: "parseJointBlock NumberDecimal partialBlockB = Some partialJointB"
  by (simp add: partialBlockB_def partialJointB_def parser_eval)

text \<open>C6 on a description whose first block has no \<open>parent\<close> element: the model
  holds the joint of the second block only.\<close>

theorem block_without_link_dropped_witness:
  "extractJointBlocks partialUrdf = [] @ partialBlockA # [partialBlockB] \<and>
   \<not> hasSelfClosing ''parent'' partialBlockA \<and>
   parseJointBlock NumberDecimal partialBlockA = None \<and>
   joints (parseUrdf NumberDecimal partialUrdf) = [partialJointB] \<and>
   jointsByName (parseUrdf NumberDecimal partialUrdf) = [(''b'', 0)]"
proof -
  have h: "\<not> hasSelfClosing ''parent'' partialBlockA"
    using partial_no_parent by (simp add: regexExec_selfClosing_None_iff)
  note d = block_without_link_dropped [OF partial_blocks disjI1 [OF h], of NumberDecimal]
  from d have "parseJointBlock NumberDecimal partialBlockA = None"
    by (elim conjE)
  moreover from d have "parseUrdf NumberDecimal partialUrdf
      = buildModel (List.map_filter (parseJointBlock NumberDecimal) ([] @ [partialBlockB]))"
    by (elim conjE)
  then have "joints (parseUrdf NumberDecimal partialUrdf) = [partialJointB] \<and>
             jointsByName (parseUrdf NumberDecimal partialUrdf) = [(''b'', 0)]"
    by (simp add: partial_jointB buildModel_def addJoint_def Let_def partialJointB_def)
  ultimately show ?thesis
    using partial_blocks h by simp
qed

lemma partial_model:
  "parseUrdf NumberDecimal partialUrdf =
     \<lparr>joints = [partialJointB], jointsByName = [(''b'', 0)],
      jointsByParentLink = [(''p'', [0])], linkParent = [(''c'', ''p'')]\<rparr>"
proof -
  have "parseJointBlock NumberDecimal partialBlockA = None"
    by (rule parseJointBlock_no_link) (simp add: parseSingleTagAttr_missing partial_no_parent)
  then show ?thesis
    by (simp add: parseUrdf_def partial_blocks partial_jointB buildModel_def addJoint_def
        Let_def partialJointB_def)
qed

text \<open>C9 on the fixed joint \<open>b\<close> of that description: one run sets it to 5, the
  other sets it to 7 twice, and the records agree.\<close>

theorem fixed_joint_record_independent_witness:
  "j_type (joints (parseUrdf NumberDecimal partialUrdf)
             ! snd (jointsByName (parseUrdf NumberDecimal partialUrdf) ! 0)) = Fixed \<and>
   j_q (joints (fold setJointState [fiveUpdate] (parseUrdf NumberDecimal partialUrdf)) ! 0) = 5 \<and>
   j_q (joints (fold setJointState [sevenUpdate, sevenUpdate]
                  (parseUrdf NumberDecimal partialUrdf)) ! 0) = 7 \<and>
   transforms (fst (compute None
       (fold setJointState [fiveUpdate] (parseUrdf NumberDecimal partialUrdf)))) ! 0
     = transforms (fst (compute None
       (fold setJointState [sevenUpdate, sevenUpdate] (parseUrdf NumberDecimal partialUrdf)))) ! 0"
proof -
  let ?m = "parseUrdf NumberDecimal partialUrdf"
  have i: "0 < length (jointsByName ?m)"
    by (simp add: partial_model)
  have f: "j_type (joints ?m ! snd (jointsByName ?m ! 0)) = Fixed"
    by (simp add: partial_model partialJointB_def)
  have five: "j_q (joints (fold setJointState [fiveUpdate] ?m) ! 0) = 5"
    by (simp add: partial_model setJointState_def nameToPos_def fiveUpdate_def positionOr0_def
        setOne_def)
  have seven: "j_q (joints (fold setJointState [sevenUpdate, sevenUpdate] ?m) ! 0) = 7"
    by (simp add: partial_model setJointState_def nameToPos_def sevenUpdate_def positionOr0_def
        setOne_def)
  from fixed_joint_record_independent [OF i f, of None "[fiveUpdate]" "[sevenUpdate, sevenUpdate]"]
  have "transforms (fst (compute None (fold setJointState [fiveUpdate] ?m))) ! 0
      = transforms (fst (compute None (fold setJointState [sevenUpdate, sevenUpdate] ?m))) ! 0"
    by (elim conjE)
  with f five seven show ?thesis by simp
qed

lemma zeroAxis_blocks: "extractJointBlocks zeroAxisUrdf = [zeroAxisUrdf]"
  by code_simp

lemma zeroAxis_joint: "parseJointBlock NumberDecimal zeroAxisUrdf = Some zeroAxisJoint"
  by (simp add: zeroAxisUrdf_def zeroAxisJoint_def parser_eval)

lemma zeroAxis_model:
  "parseUrdf NumberDecimal zeroAxisUrdf =
     \<lparr>joints = [zeroAxisJoint], jointsByName = [(''j'', 0)],
      jointsByParentLink = [(''a'', [0])], linkParent = [(''b'', ''a'')]\<rparr>"
  by (simp add: parseUrdf_def zeroAxis_blocks zeroAxis_joint buildModel_def addJoint_def
      Let_def zeroAxisJoint_def)

text \<open>C5 as it is stated fails on a description with the axis \<open>0 0 0\<close>: the joint
  enters the model under its name, and its axis is the zero vector, whose length is
  not 1.\<close>

theorem axis_not_unit_counterexample:
  "jointsByName (parseUrdf NumberDecimal zeroAxisUrdf) = [(''j'', 0)] \<and>
   j_axis (joints (parseUrdf NumberDecimal zeroAxisUrdf) ! 0) = \<lparr>vx = 0, vy = 0, vz = 0\<rparr> \<and>
   vec3Length (j_axis (joints (parseUrdf NumberDecimal zeroAxisUrdf) ! 0)) \<noteq> 1"
  by (simp add: zeroAxis_model zeroAxisJoint_def vec3Length_def)

text \<open>C5 as amended, on a joint of the test description (a unit axis) and on the
  joint with the zero axis.\<close>

theorem axis_unit_unless_zero_witness:
  "miniJoint1 \<in> set (joints (parseUrdf NumberDecimal miniUrdf)) \<and>
   vec3Length (j_axis miniJoint1) = 1 \<and>
   zeroAxisJoint \<in> set (joints (parseUrdf NumberDecimal zeroAxisUrdf)) \<and>
   j_axis zeroAxisJoint = vec3 0 0 0"
proof -
  have in1: "miniJoint1 \<in> set (joints (parseUrdf NumberDecimal miniUrdf))"
    by (simp add: mini_model)
  from axis_unit_unless_zero [of NumberDecimal miniUrdf, rule_format, OF in1]
  obtain b where "if axisOfBlock NumberDecimal b = vec3 0 0 0
      then j_axis miniJoint1 = vec3 0 0 0 else vec3Length (j_axis miniJoint1) = 1"
    by blast
  moreover have "j_axis miniJoint1 \<noteq> vec3 0 0 0"
    by (simp add: miniJoint1_def vec3_def)
  ultimately have u: "vec3Length (j_axis miniJoint1) = 1"
    by (simp split: if_splits)
  have in0: "zeroAxisJoint \<in> set (joints (parseUrdf NumberDecimal zeroAxisUrdf))"
    by (simp add: zeroAxis_model)
  from axis_unit_unless_zero [of NumberDecimal zeroAxisUrdf, rule_format, OF in0]
  obtain b0 where "if axisOfBlock NumberDecimal b0 = vec3 0 0 0
      then j_axis zeroAxisJoint = vec3 0 0 0 else vec3Length (j_axis zeroAxisJoint) = 1"
    by blast
  moreover have "vec3Length (j_axis zeroAxisJoint) \<noteq> 1"
    by (simp add: zeroAxisJoint_def vec3Length_def)
  ultimately have z: "j_axis zeroAxisJoint = vec3 0 0 0"
    by (simp split: if_splits)
  from in1 u in0 z show ?thesis by simp
qed

lemma nameless_blocks1:
  "extractJointBlocks namelessUrdf = [] @ namelessBlock1 # [namelessBlock2, namelessBlock3]"
  by code_simp

lemma nameless_blocks2:
  "extractJointBlocks namelessUrdf = [namelessBlock1] @ namelessBlock2 # [namelessBlock3]"
  by code_simp

lemma nameless_open1:
  "regexExec (matchOpenTagAt ''joint'') namelessBlock1 = Some '' type=\"revolute\"''"
  by code_simp

lemma nameless_open2:
  "regexExec (matchOpenTagAt ''joint'') namelessBlock2 = Some '' name=\"  \"''"
  by code_simp

lemma nameless_name1: "parseAttrs '' type=\"revolute\"'' ''name'' = None"
  by code_simp

lemma nameless_name2: "parseAttrs '' name=\"  \"'' ''name'' = Some ''  '' \<and> trim ''  '' = []"
  by code_simp

lemma nameless_links1:
  "parseSingleTagAttr namelessBlock1 ''parent'' ''link'' = Some ''p'' \<and>
   parseSingleTagAttr namelessBlock1 ''child'' ''link'' = Some ''c''"
  by code_simp

lemma nameless_joint3: "parseJointBlock NumberDecimal namelessBlock3 = Some namelessJoint3"
  by (simp add: namelessBlock3_def namelessJoint3_def parser_eval)

text \<open>C10 on a description whose first block has no \<open>name\<close> attribute and whose
  second block has a blank one, both with \<open>parent\<close> and \<open>child\<close> elements: the model
  holds the joint of the third block only.\<close>

theorem block_without_name_dropped_witness:
  "parseSingleTagAttr namelessBlock1 ''parent'' ''link'' = Some ''p'' \<and>
   parseSingleTagAttr namelessBlock1 ''child'' ''link'' = Some ''c'' \<and>
   parseJointBlock NumberDecimal namelessBlock1 = None \<and>
   parseJointBlock NumberDecimal namelessBlock2 = None \<and>
   joints (parseUrdf NumberDecimal namelessUrdf) = [namelessJoint3] \<and>
   jointsByName (parseUrdf NumberDecimal namelessUrdf) = [(''k'', 0)]"
proof -
  note d1 = block_without_name_dropped [OF nameless_blocks1 nameless_open1
      disjI1 [OF nameless_name1], of NumberDecimal]
  have "\<exists>v. parseAttrs '' name=\"  \"'' ''name'' = Some v \<and> trim v = []"
    using nameless_name2 by blast
  note d2 = block_without_name_dropped [OF nameless_blocks2 nameless_open2 disjI2 [OF this],
      of NumberDecimal]
  from d1 have n1: "parseJointBlock NumberDecimal namelessBlock1 = None"
    by (elim conjE)
  from d2 have n2: "parseJointBlock NumberDecimal namelessBlock2 = None"
    by (elim conjE)
  from d1 have "parseUrdf NumberDecimal namelessUrdf
      = buildModel (List.map_filter (parseJointBlock NumberDecimal)
          ([] @ [namelessBlock2, namelessBlock3]))"
    by (elim conjE)
  then have "joints (parseUrdf NumberDecimal namelessUrdf) = [namelessJoint3] \<and>
             jointsByName (parseUrdf NumberDecimal namelessUrdf) = [(''k'', 0)]"
    by (simp add: n2 nameless_joint3 buildModel_def addJoint_def Let_def namelessJoint3_def)
  with n1 n2 nameless_links1 show ?thesis by simp
qed

end
